theory Spec2Isabelle
  imports Main
begin

section \<open>Data model\<close>

text \<open>
  The quest service of the gamify dashboard (\<^verbatim>\<open>src/lib/services/QuestService.ts\<close>, and its
  second copy \<^verbatim>\<open>unnamed/part_002\<close>, which differs only in \<^verbatim>\<open>getWeekKey\<close>) keeps, per company,
  user and period, a progress document with two running counters and a list of objective
  states. Counters, thresholds, rewards and ranks are counts: they are modelled as \<open>nat\<close>
  (the catalog service clamps them with \<^verbatim>\<open>Math.max(0, ...)\<close>, and the counters start at 0 and
  are only incremented), so the source's \<^verbatim>\<open>(progress.currentMessages || 0)\<close> is the counter itself.

  \<^verbatim>\<open>IQuestObjective\<close> and the two identical interfaces \<^verbatim>\<open>IDailyObjectiveProgress\<close> /
  \<^verbatim>\<open>IWeeklyObjectiveProgress\<close> share the four definition fields; they are record extensions of
  one base record, so the fields keep the names of the source. The field \<^verbatim>\<open>id\<close> of
  \<^verbatim>\<open>IQuestObjective\<close> is \<open>id_obj\<close> here.
\<close>

datatype quest_type = Daily | Weekly

record objective_def =
  messageCount :: nat
  successMessageCount :: nat
  xpReward :: nat
  order :: nat

record quest_objective = objective_def +
  id_obj :: string

record objective_progress = objective_def +
  objectiveId :: string
  completed :: bool
  claimed :: bool

text \<open>Of \<^verbatim>\<open>IQuest\<close> the service reads the type and the objectives only.\<close>

record quest =
  questId :: string
  questType :: quest_type
  objectives :: "quest_objective list"

text \<open>
  \<^verbatim>\<open>IDailyQuestProgress\<close> and \<^verbatim>\<open>IWeeklyQuestProgress\<close> differ in the name of the period key.
\<close>

record quest_progress =
  companyId :: string
  userId :: string
  currentMessages :: nat
  currentSuccessMessages :: nat
  Objectives :: "objective_progress list"
  Completed :: bool
  QuestSeen :: bool
  NotificationCount :: nat

record daily_quest_progress = quest_progress +
  dateKey :: string

record weekly_quest_progress = quest_progress +
  weekKey :: string

text \<open>The two collections of the store.\<close>

record store =
  DailyQuestProgress :: "daily_quest_progress list"
  WeeklyQuestProgress :: "weekly_quest_progress list"

text \<open>Values returned to the caller.\<close>

record claim_result =
  success :: bool
  error :: "string option"
  xp :: nat

record update_result =
  dailyProgress :: "daily_quest_progress option"
  weeklyProgress :: "weekly_quest_progress option"
  completedObjectives :: "string list option"

record objective_view =
  id_v :: string
  title_v :: string
  description_v :: string
  progress_v :: nat
  target_v :: nat
  completed_v :: bool
  claimed_v :: bool
  xp_v :: nat
  order_v :: nat

record period_view =
  msgCount :: nat
  successMsgCount :: nat
  objectives_v :: "objective_view list"
  questSeen :: bool
  notificationCount :: nat

record user_progress =
  daily :: period_view
  weekly :: period_view

section \<open>Store access\<close>

text \<open>\<^verbatim>\<open>quests[0]\<close>: the first element, or \<^verbatim>\<open>undefined\<close>.\<close>

definition first :: "'a list \<Rightarrow> 'a option" where
  "first xs = (case xs of [] \<Rightarrow> None | x # _ \<Rightarrow> Some x)"

definition isDaily :: "string \<Rightarrow> string \<Rightarrow> string \<Rightarrow> daily_quest_progress \<Rightarrow> bool" where
  "isDaily cid uid dk p \<longleftrightarrow> companyId p = cid \<and> userId p = uid \<and> dateKey p = dk"

definition isWeekly :: "string \<Rightarrow> string \<Rightarrow> string \<Rightarrow> weekly_quest_progress \<Rightarrow> bool" where
  "isWeekly cid uid wk p \<longleftrightarrow> companyId p = cid \<and> userId p = uid \<and> weekKey p = wk"

text \<open>
  \<^verbatim>\<open>progress.save()\<close> of a document that \<^verbatim>\<open>findOne\<close> returned: the stored document that the query
  selected (the first that matches) is replaced.
\<close>

fun saveDoc :: "('d \<Rightarrow> bool) \<Rightarrow> 'd \<Rightarrow> 'd list \<Rightarrow> 'd list" where
  "saveDoc sel d [] = []"
| "saveDoc sel d (x # xs) = (if sel x then d # xs else x # saveDoc sel d xs)"

section \<open>Seeding and counting\<close>

text \<open>Lines 77-85 (and 130-138, 337-347, 363-373): the objective states of a new document.\<close>

definition seedObjectives :: "quest option \<Rightarrow> objective_progress list" where
  "seedObjectives q =
     (case q of
        None \<Rightarrow> []
      | Some quest \<Rightarrow>
          map (\<lambda>obj. \<lparr>messageCount = messageCount obj,
                       successMessageCount = successMessageCount obj,
                       xpReward = xpReward obj,
                       order = order obj,
                       objectiveId = id_obj obj,
                       completed = False,
                       claimed = False\<rparr>) (objectives quest))"

definition newDaily :: "string \<Rightarrow> string \<Rightarrow> string \<Rightarrow> quest option \<Rightarrow> daily_quest_progress" where
  "newDaily cid uid dk q =
     \<lparr>companyId = cid, userId = uid, currentMessages = 0, currentSuccessMessages = 0,
      Objectives = seedObjectives q, Completed = False, QuestSeen = True,
      NotificationCount = 0, dateKey = dk\<rparr>"

definition newWeekly :: "string \<Rightarrow> string \<Rightarrow> string \<Rightarrow> quest option \<Rightarrow> weekly_quest_progress" where
  "newWeekly cid uid wk q =
     \<lparr>companyId = cid, userId = uid, currentMessages = 0, currentSuccessMessages = 0,
      Objectives = seedObjectives q, Completed = False, QuestSeen = True,
      NotificationCount = 0, weekKey = wk\<rparr>"

text \<open>Lines 113-114 (and 164-165): one of the two counters is incremented.\<close>

definition incrementTotals :: "bool \<Rightarrow> 'a quest_progress_scheme \<Rightarrow> 'a quest_progress_scheme" where
  "incrementTotals isSuccessMessage progress =
     (if \<not> isSuccessMessage then progress\<lparr>currentMessages := currentMessages progress + 1\<rparr>
      else progress\<lparr>currentSuccessMessages := currentSuccessMessages progress + 1\<rparr>)"

section \<open>Completion check\<close>

text \<open>
  The loop of \<^verbatim>\<open>checkObjectiveCompletionDaily\<close> (lines 174-188) over the objective states, with
  the flag \<^verbatim>\<open>questCompleted\<close> threaded through; the first two arguments are the two counters.
\<close>

fun checkLoop ::
  "nat \<Rightarrow> nat \<Rightarrow> objective_progress list \<Rightarrow> bool \<Rightarrow> objective_progress list \<times> bool" where
  "checkLoop cm cs [] questCompleted = ([], questCompleted)"
| "checkLoop cm cs (objective # rest) questCompleted =
     (if completed objective then
        (let (rest', qc) = checkLoop cm cs rest questCompleted in (objective # rest', qc))
      else
        (let isCompleted =
               (if messageCount objective > 0 then cm \<ge> messageCount objective
                else if successMessageCount objective > 0 then cs \<ge> successMessageCount objective
                else False)
         in if isCompleted then
              (let (rest', qc) = checkLoop cm cs rest True
               in (objective\<lparr>completed := True\<rparr> # rest', qc))
            else
              (let (rest', qc) = checkLoop cm cs rest questCompleted in (objective # rest', qc))))"

text \<open>
  \<^verbatim>\<open>checkObjectiveCompletionDaily\<close> and \<^verbatim>\<open>checkObjectiveCompletionWeekly\<close> have the same body; it
  is written once, for both document types.
\<close>

definition checkObjectiveCompletion :: "'a quest_progress_scheme \<Rightarrow> 'a quest_progress_scheme" where
  "checkObjectiveCompletion progress =
     (let (objs, questCompleted) =
            checkLoop (currentMessages progress) (currentSuccessMessages progress)
              (Objectives progress) False
      in if questCompleted then progress\<lparr>Objectives := objs, QuestSeen := False\<rparr>
         else progress\<lparr>Objectives := objs\<rparr>)"

definition checkObjectiveCompletionDaily :: "daily_quest_progress \<Rightarrow> daily_quest_progress" where
  "checkObjectiveCompletionDaily progress = checkObjectiveCompletion progress"

definition checkObjectiveCompletionWeekly :: "weekly_quest_progress \<Rightarrow> weekly_quest_progress" where
  "checkObjectiveCompletionWeekly progress = checkObjectiveCompletion progress"

section \<open>Recording an event\<close>

text \<open>
  The catalog is read through \<^verbatim>\<open>QuestConfigService\<close>; the lists \<open>dailyQuests\<close>, \<open>weeklyQuests\<close> and
  \<open>allQuests\<close> below are what \<^verbatim>\<open>getQuestsByType('daily')\<close>, \<^verbatim>\<open>getQuestsByType('weekly')\<close> and
  \<^verbatim>\<open>getAllQuests()\<close> return. The period keys \<open>dk\<close> and \<open>wk\<close> are \<^verbatim>\<open>getDateKey(now)\<close> and
  \<^verbatim>\<open>getWeekKey(now)\<close>. The argument \<open>conn\<close> of a public operation says whether \<^verbatim>\<open>await connectDB()\<close>,
  the first statement of its \<^verbatim>\<open>try\<close> block, resolves; when it rejects, the \<^verbatim>\<open>catch\<close> block of the
  operation runs. This is the only failure of a collaborator in the model: a later read or
  write that throws (a \<^verbatim>\<open>save\<close> the schema refuses, say, after the upsert of \<^verbatim>\<open>updateDailyProgress\<close>
  has inserted the document) also ends in the \<^verbatim>\<open>catch\<close> block, with what was written before it
  left in the store, and is not modelled.
\<close>

definition updateDailyProgress ::
  "string \<Rightarrow> quest list \<Rightarrow> string \<Rightarrow> string \<Rightarrow> bool \<Rightarrow> daily_quest_progress list
     \<Rightarrow> daily_quest_progress \<times> daily_quest_progress list" where
  "updateDailyProgress cid dailyQuests uid dk isSuccessMessage coll =
     (let dailyQuest = first dailyQuests;
          (progress, coll1) =
             (case find (isDaily cid uid dk) coll of
                Some p \<Rightarrow> (p, coll)
              | None \<Rightarrow> (newDaily cid uid dk dailyQuest, coll @ [newDaily cid uid dk dailyQuest]));
          progress' = checkObjectiveCompletionDaily (incrementTotals isSuccessMessage progress)
      in (progress', saveDoc (isDaily cid uid dk) progress' coll1))"

definition updateWeeklyProgress ::
  "string \<Rightarrow> quest list \<Rightarrow> string \<Rightarrow> string \<Rightarrow> bool \<Rightarrow> weekly_quest_progress list
     \<Rightarrow> weekly_quest_progress \<times> weekly_quest_progress list" where
  "updateWeeklyProgress cid weeklyQuests uid wk isSuccessMessage coll =
     (let weeklyQuest = first weeklyQuests;
          (progress, coll1) =
             (case find (isWeekly cid uid wk) coll of
                Some p \<Rightarrow> (p, coll)
              | None \<Rightarrow> (newWeekly cid uid wk weeklyQuest, coll @ [newWeekly cid uid wk weeklyQuest]));
          progress' = checkObjectiveCompletionWeekly (incrementTotals isSuccessMessage progress)
      in (progress', saveDoc (isWeekly cid uid wk) progress' coll1))"

definition updateProgress ::
  "bool \<Rightarrow> quest list \<Rightarrow> quest list \<Rightarrow> string \<Rightarrow> string \<Rightarrow> string \<Rightarrow> string \<Rightarrow> bool \<Rightarrow> store
     \<Rightarrow> update_result \<times> store" where
  "updateProgress conn dailyQuests weeklyQuests cid uid dk wk isSuccessMessage s =
     (if \<not> conn then
        (\<lparr>dailyProgress = None, weeklyProgress = None, completedObjectives = None\<rparr>, s)
      else
        (let (dp, dcoll) = updateDailyProgress cid dailyQuests uid dk isSuccessMessage (DailyQuestProgress s);
             (wp, wcoll) = updateWeeklyProgress cid weeklyQuests uid wk isSuccessMessage (WeeklyQuestProgress s)
         in (\<lparr>dailyProgress = Some dp, weeklyProgress = Some wp, completedObjectives = Some []\<rparr>,
             \<lparr>DailyQuestProgress = dcoll, WeeklyQuestProgress = wcoll\<rparr>)))"

section \<open>Claiming\<close>

text \<open>Lines 237-244: the first quest of the catalog that has an objective with the id.\<close>

fun findObjective :: "quest list \<Rightarrow> string \<Rightarrow> (quest_objective \<times> quest_type) option" where
  "findObjective [] oid = None"
| "findObjective (quest # rest) oid =
     (case find (\<lambda>obj. id_obj obj = oid) (objectives quest) of
        Some foundObjective \<Rightarrow> Some (foundObjective, questType quest)
      | None \<Rightarrow> findObjective rest oid)"

text \<open>
  \<^verbatim>\<open>objectiveProgress.claimed = true\<close>: the state that \<^verbatim>\<open>find\<close> returned, the first with the id,
  is changed in place.
\<close>

fun setClaimed :: "string \<Rightarrow> objective_progress list \<Rightarrow> objective_progress list" where
  "setClaimed oid [] = []"
| "setClaimed oid (obj # rest) =
     (if objectiveId obj = oid then obj\<lparr>claimed := True\<rparr> # rest else obj # setClaimed oid rest)"

definition failure :: "string \<Rightarrow> claim_result" where
  "failure msg = \<lparr>success = False, error = Some msg, xp = 0\<rparr>"

text \<open>
  Lines 253-259 (and 264-270), the same for both document types: \<open>objective\<close> is the catalog's
  objective found by \<open>findObjective\<close>. The document is returned as it is to be saved.
\<close>

definition claimProgress ::
  "quest_objective \<Rightarrow> string \<Rightarrow> 'a quest_progress_scheme
     \<Rightarrow> claim_result \<times> 'a quest_progress_scheme" where
  "claimProgress objective oid progress =
     (case find (\<lambda>obj. objectiveId obj = oid) (Objectives progress) of
        None \<Rightarrow> (failure ''Objective progress not found'', progress)
      | Some objectiveProgress \<Rightarrow>
          if \<not> completed objectiveProgress then (failure ''Objective not completed yet'', progress)
          else if claimed objectiveProgress then (failure ''Objective already claimed'', progress)
          else (\<lparr>success = True, error = None, xp = xpReward objective\<rparr>,
                progress\<lparr>Objectives := setClaimed oid (Objectives progress)\<rparr>))"

definition claimObjective ::
  "bool \<Rightarrow> quest list \<Rightarrow> string \<Rightarrow> string \<Rightarrow> string \<Rightarrow> string \<Rightarrow> string \<Rightarrow> store
     \<Rightarrow> claim_result \<times> store" where
  "claimObjective conn allQuests cid uid dk wk oid s =
     (if \<not> conn then (failure ''Internal server error'', s)
      else
        case findObjective allQuests oid of
          None \<Rightarrow> (failure ''Objective not found'', s)
        | Some (objective, Daily) \<Rightarrow>
            (case find (isDaily cid uid dk) (DailyQuestProgress s) of
               None \<Rightarrow> (failure ''Quest progress not found'', s)
             | Some progress \<Rightarrow>
                 (let (r, progress') = claimProgress objective oid progress
                  in if success r
                     then (r, s\<lparr>DailyQuestProgress :=
                                   saveDoc (isDaily cid uid dk) progress' (DailyQuestProgress s)\<rparr>)
                     else (r, s)))
        | Some (objective, Weekly) \<Rightarrow>
            (case find (isWeekly cid uid wk) (WeeklyQuestProgress s) of
               None \<Rightarrow> (failure ''Quest progress not found'', s)
             | Some progress \<Rightarrow>
                 (let (r, progress') = claimProgress objective oid progress
                  in if success r
                     then (r, s\<lparr>WeeklyQuestProgress :=
                                   saveDoc (isWeekly cid uid wk) progress' (WeeklyQuestProgress s)\<rparr>)
                     else (r, s))))"








section \<open>Marking a quest as seen\<close>

definition markQuestSeen ::
  "bool \<Rightarrow> string \<Rightarrow> string \<Rightarrow> string \<Rightarrow> string \<Rightarrow> quest_type \<Rightarrow> store \<Rightarrow> bool \<times> store" where
  "markQuestSeen conn cid uid dk wk qt s =
     (if \<not> conn then (False, s)
      else
        case qt of
          Daily \<Rightarrow>
            (case find (isDaily cid uid dk) (DailyQuestProgress s) of
               None \<Rightarrow> (False, s)
             | Some doc \<Rightarrow>
                 (True, s\<lparr>DailyQuestProgress :=
                            saveDoc (isDaily cid uid dk) (doc\<lparr>QuestSeen := True\<rparr>) (DailyQuestProgress s)\<rparr>))
        | Weekly \<Rightarrow>
            (case find (isWeekly cid uid wk) (WeeklyQuestProgress s) of
               None \<Rightarrow> (False, s)
             | Some doc \<Rightarrow>
                 (True, s\<lparr>WeeklyQuestProgress :=
                            saveDoc (isWeekly cid uid wk) (doc\<lparr>QuestSeen := True\<rparr>) (WeeklyQuestProgress s)\<rparr>)))"

section \<open>Catalog migration\<close>

text \<open>
  Lines 597-623: the catalog's objectives whose id is not among the ids the document had
  before the loop (\<open>currentIds\<close>, line 594) are pushed, not completed and not claimed. The
  values \<^verbatim>\<open>inheritedMessages\<close> and \<^verbatim>\<open>inheritedSuccessMessages\<close> of the source are only logged.
\<close>

fun addMissing ::
  "string list \<Rightarrow> quest_objective list \<Rightarrow> objective_progress list \<Rightarrow> bool
     \<Rightarrow> objective_progress list \<times> bool" where
  "addMissing currentIds [] objs needsUpdate = (objs, needsUpdate)"
| "addMissing currentIds (configObj # rest) objs needsUpdate =
     (if id_obj configObj \<notin> set currentIds then
        addMissing currentIds rest
          (objs @ [\<lparr>messageCount = messageCount configObj,
                     successMessageCount = successMessageCount configObj,
                     xpReward = xpReward configObj,
                     order = order configObj,
                     objectiveId = id_obj configObj,
                     completed = False,
                     claimed = False\<rparr>]) True
      else addMissing currentIds rest objs needsUpdate)"

text \<open>Lines 626-649: the definition fields of the states the catalog still knows.\<close>

fun updateExisting ::
  "quest_objective list \<Rightarrow> objective_progress list \<Rightarrow> bool \<Rightarrow> objective_progress list \<times> bool" where
  "updateExisting cfg [] needsUpdate = ([], needsUpdate)"
| "updateExisting cfg (progressObj # rest) needsUpdate =
     (case find (\<lambda>obj. id_obj obj = objectiveId progressObj) cfg of
        None \<Rightarrow>
          (let (rest', nu) = updateExisting cfg rest needsUpdate in (progressObj # rest', nu))
      | Some configObj \<Rightarrow>
          if messageCount progressObj \<noteq> messageCount configObj \<or>
             successMessageCount progressObj \<noteq> successMessageCount configObj \<or>
             xpReward progressObj \<noteq> xpReward configObj \<or>
             order progressObj \<noteq> order configObj
          then
            (let (rest', nu) = updateExisting cfg rest True
             in (progressObj\<lparr>messageCount := messageCount configObj,
                              successMessageCount := successMessageCount configObj,
                              xpReward := xpReward configObj,
                              order := order configObj\<rparr> # rest', nu))
          else
            (let (rest', nu) = updateExisting cfg rest needsUpdate in (progressObj # rest', nu)))"

text \<open>
  The body of the loop over the documents (lines 592-650, and 660-718 for the weekly
  collection): the document as changed, and \<^verbatim>\<open>needsUpdate\<close>.
\<close>

definition migrateProgress ::
  "quest option \<Rightarrow> 'a quest_progress_scheme \<Rightarrow> 'a quest_progress_scheme \<times> bool" where
  "migrateProgress q progress =
     (case q of
        None \<Rightarrow> (progress, False)
      | Some quest \<Rightarrow>
          (let currentIds = map objectiveId (Objectives progress);
               (objs1, nu1) = addMissing currentIds (objectives quest) (Objectives progress) False;
               (objs2, nu2) = updateExisting (objectives quest) objs1 nu1
           in (progress\<lparr>Objectives := objs2\<rparr>, nu2)))"

text \<open>
  A document of the company is saved when \<^verbatim>\<open>needsUpdate\<close> is set; the documents of other
  companies are not selected by \<^verbatim>\<open>find({ companyId })\<close>.
\<close>

definition migrateDoc ::
  "quest option \<Rightarrow> string \<Rightarrow> 'a quest_progress_scheme \<Rightarrow> 'a quest_progress_scheme" where
  "migrateDoc q cid progress =
     (if companyId progress = cid then
        (let (progress', needsUpdate) = migrateProgress q progress
         in if needsUpdate then progress' else progress)
      else progress)"

definition migrateQuestProgress :: "bool \<Rightarrow> quest list \<Rightarrow> quest list \<Rightarrow> string \<Rightarrow> store \<Rightarrow> store" where
  "migrateQuestProgress conn dailyQuests weeklyQuests cid s =
     (if \<not> conn then s
      else
        (let dailyQuest = first dailyQuests; weeklyQuest = first weeklyQuests
         in case (dailyQuest, weeklyQuest) of
              (None, None) \<Rightarrow> s
            | _ \<Rightarrow> \<lparr>DailyQuestProgress = map (migrateDoc dailyQuest cid) (DailyQuestProgress s),
                    WeeklyQuestProgress = map (migrateDoc weeklyQuest cid) (WeeklyQuestProgress s)\<rparr>))"

section \<open>Numbers as text\<close>

text \<open>The decimal digit of a number below ten.\<close>

definition digit_char :: "nat \<Rightarrow> char" where
  "digit_char n = ''0123456789'' ! (n mod 10)"

text \<open>\<^verbatim>\<open>Number.prototype.toString\<close> on a non-negative integer, and on an integer.\<close>

fun toString :: "nat \<Rightarrow> string" where
  "toString n = (if n < 10 then [digit_char n] else toString (n div 10) @ [digit_char (n mod 10)])"

declare toString.simps [simp del]

definition toString_int :: "int \<Rightarrow> string" where
  "toString_int i = (if i < 0 then CHR ''-'' # toString (nat (- i)) else toString (nat i))"

text \<open>\<^verbatim>\<open>String.prototype.padStart\<close> with a one-character filler.\<close>

definition padStart :: "nat \<Rightarrow> char \<Rightarrow> string \<Rightarrow> string" where
  "padStart n c str = replicate (n - length str) c @ str"

section \<open>The read-model\<close>

text \<open>Lines 399-426 (and 429-456): one view per objective of the quest, in the order of \<^verbatim>\<open>order\<close>.\<close>

definition buildObjectives :: "quest \<Rightarrow> 'a quest_progress_scheme \<Rightarrow> objective_view list" where
  "buildObjectives q doc =
     map (\<lambda>objective.
            (let objectiveProgress = find (\<lambda>obj. objectiveId obj = id_obj objective) (Objectives doc);
                 current = (if messageCount objective > 0 then currentMessages doc
                            else currentSuccessMessages doc);
                 target = (if messageCount objective > 0 then messageCount objective
                           else successMessageCount objective);
                 isSuccessObjective = (successMessageCount objective > 0);
                 title =
                   (if isSuccessObjective
                    then ''Send '' @ toString (successMessageCount objective) @ '' Success Message''
                           @ (if successMessageCount objective > 1 then ''s'' else [])
                    else ''Send '' @ toString (messageCount objective) @ '' Message''
                           @ (if messageCount objective > 1 then ''s'' else []));
                 description =
                   (if isSuccessObjective
                    then ''Send '' @ toString (successMessageCount objective) @ '' message''
                           @ (if successMessageCount objective > 1 then ''s'' else [])
                           @ '' in success channels''
                    else ''Send '' @ toString (messageCount objective) @ '' message''
                           @ (if messageCount objective > 1 then ''s'' else [])
                           @ '' in any channel'')
             in \<lparr>id_v = id_obj objective,
                 title_v = title,
                 description_v = description,
                 progress_v = min current target,
                 target_v = target,
                 completed_v = (case objectiveProgress of None \<Rightarrow> False | Some p \<Rightarrow> completed p),
                 claimed_v = (case objectiveProgress of None \<Rightarrow> False | Some p \<Rightarrow> claimed p),
                 xp_v = xpReward objective,
                 order_v = order objective\<rparr>))
         (sort_key order (objectives q))"

text \<open>Lines 459-469 (and 460, 470-476): the counts of one period.\<close>

definition buildPeriod :: "quest \<Rightarrow> 'a quest_progress_scheme \<Rightarrow> period_view" where
  "buildPeriod q doc =
     (let objs = buildObjectives q doc
      in \<lparr>msgCount = foldl (\<lambda>sum ob. sum + progress_v ob) 0 objs,
          successMsgCount = foldl (\<lambda>sum ob. sum + progress_v ob) 0 objs,
          objectives_v = objs,
          questSeen = QuestSeen doc,
          notificationCount = length (filter (\<lambda>ob. completed_v ob \<and> \<not> claimed_v ob) objs)\<rparr>)"

definition emptyPeriod :: period_view where
  "emptyPeriod =
     \<lparr>msgCount = 0, successMsgCount = 0, objectives_v = [], questSeen = False, notificationCount = 0\<rparr>"

definition emptyProgress :: user_progress where
  "emptyProgress = \<lparr>daily = emptyPeriod, weekly = emptyPeriod\<rparr>"

text \<open>
  The value \<^verbatim>\<open>getUserProgress\<close> returns. It is computed from the two documents the operation
  loaded (or created) before it ran the migration, after the completion check on them; the
  writes of the operation (the new documents, \<^verbatim>\<open>migrateQuestProgress\<close>, the two final saves) do
  not enter the returned value. A write that failed would end in the \<^verbatim>\<open>catch\<close> block, as a
  failed connection does, and the empty read-model would be returned: so when the migration
  inside the call has changed the stored document and the check then marks a state on the
  instance loaded before it, whose \<^verbatim>\<open>save\<close> the store refuses. The definition gives the value of
  the \<^verbatim>\<open>return\<close> statement of line 462 also there.
\<close>

definition getUserProgress ::
  "bool \<Rightarrow> quest list \<Rightarrow> quest list \<Rightarrow> string \<Rightarrow> string \<Rightarrow> string \<Rightarrow> string \<Rightarrow> store
     \<Rightarrow> user_progress" where
  "getUserProgress conn dailyQuests weeklyQuests cid uid dk wk s =
     (if \<not> conn then emptyProgress
      else
        (let dailyQuest = first dailyQuests;
             weeklyQuest = first weeklyQuests;
             dailyDoc = (case find (isDaily cid uid dk) (DailyQuestProgress s) of
                           Some d \<Rightarrow> d | None \<Rightarrow> newDaily cid uid dk dailyQuest);
             weeklyDoc = (case find (isWeekly cid uid wk) (WeeklyQuestProgress s) of
                            Some d \<Rightarrow> d | None \<Rightarrow> newWeekly cid uid wk weeklyQuest)
         in case (dailyQuest, weeklyQuest) of
              (Some dq, Some wq) \<Rightarrow>
                \<lparr>daily = buildPeriod dq (checkObjectiveCompletionDaily dailyDoc),
                 weekly = buildPeriod wq (checkObjectiveCompletionWeekly weeklyDoc)\<rparr>
            | _ \<Rightarrow> emptyProgress))"

section \<open>Period keys\<close>

text \<open>
  The built-in \<^verbatim>\<open>Date\<close> of JavaScript is not code of the repository. A \<^verbatim>\<open>Date\<close> at midnight is
  modelled by its number of days since 1970-01-01 in the proleptic Gregorian calendar
  (a millisecond count divided by 86400000): \<open>days_from_civil\<close> is \<^verbatim>\<open>Date.UTC(y, m - 1, d)\<close> in
  days, \<open>year_from_days\<close> is \<^verbatim>\<open>getUTCFullYear\<close>, \<open>getUTCDay\<close> numbers the weekdays from Sunday
  = 0, and \<^verbatim>\<open>setUTCDate(getUTCDate() + k)\<close> adds \<open>k\<close> to the day number.
\<close>

definition days_from_civil :: "int \<Rightarrow> int \<Rightarrow> int \<Rightarrow> int" where
  "days_from_civil y m d =
     (let y' = (if m \<le> 2 then y - 1 else y);
          era = y' div 400;
          yoe = y' - era * 400;
          doy = (153 * (if m > 2 then m - 3 else m + 9) + 2) div 5 + d - 1;
          doe = yoe * 365 + yoe div 4 - yoe div 100 + doy
      in era * 146097 + doe - 719468)"

definition year_from_days :: "int \<Rightarrow> int" where
  "year_from_days n =
     (let z = n + 719468;
          era = z div 146097;
          doe = z - era * 146097;
          yoe = (doe - doe div 1460 + doe div 36524 - doe div 146096) div 365;
          y = yoe + era * 400;
          doy = doe - (365 * yoe + yoe div 4 - yoe div 100);
          mp = (5 * doy + 2) div 153;
          m = (if mp < 10 then mp + 3 else mp - 9)
      in if m \<le> 2 then y + 1 else y)"

definition getUTCDay :: "int \<Rightarrow> int" where
  "getUTCDay n = (n + 4) mod 7"

text \<open>
  The calendar date of the instant in America/New_York: what \<^verbatim>\<open>nyDate.getFullYear()\<close>,
  \<^verbatim>\<open>nyDate.getMonth() + 1\<close> and \<^verbatim>\<open>nyDate.getDate()\<close> give in \<^verbatim>\<open>QuestService.ts\<close>, and what
  \<^verbatim>\<open>part_002\<close> parses from the \<^verbatim>\<open>en-CA\<close> rendering. The time zone database is outside the
  repository, so the key functions start from this date.
\<close>

record local_date =
  ld_year :: int
  ld_month :: int
  ld_day :: int

text \<open>\<^verbatim>\<open>QuestService.ts\<close>, lines 562-568.\<close>

definition getWeekNumber :: "local_date \<Rightarrow> int" where
  "getWeekNumber date =
     (let d = days_from_civil (ld_year date) (ld_month date) (ld_day date);
          dayNum = (if getUTCDay d = 0 then 7 else getUTCDay d);
          d' = d + 4 - dayNum;
          yearStart = days_from_civil (year_from_days d') 1 1
      in - ((- ((d' - yearStart) + 1)) div 7))"

text \<open>\<^verbatim>\<open>QuestService.ts\<close>, lines 553-559: the year is the one of the date itself.\<close>

definition getWeekKey :: "local_date \<Rightarrow> string" where
  "getWeekKey nyDate =
     (let year = ld_year nyDate;
          week = getWeekNumber nyDate
      in toString_int year @ ''-W'' @ padStart 2 (CHR ''0'') (toString_int week))"

text \<open>
  \<^verbatim>\<open>part_002\<close>, lines 553-595. Its dates are midnights of the server's local time; the
  difference of two of them is taken as a whole number of days, as it is on a server whose
  time zone has no daylight saving shift between them. (With a shift of an hour between the
  two, \<^verbatim>\<open>Math.floor\<close> gives a day less, and the week number of the code is one less than here.)
\<close>

definition getWeekKey_part_002 :: "local_date \<Rightarrow> string" where
  "getWeekKey_part_002 date =
     (let d = days_from_civil (ld_year date) (ld_month date) (ld_day date);
          dayOfWeek = getUTCDay d;
          thursdayOffset = (4 - dayOfWeek + 7) mod 7;
          thursday = d + thursdayOffset;
          jan4 = days_from_civil (year_from_days thursday) 1 4;
          jan4DayOfWeek = getUTCDay jan4;
          jan4ThursdayOffset = (4 - jan4DayOfWeek + 7) mod 7;
          firstThursday = jan4 + jan4ThursdayOffset;
          daysDiff = thursday - firstThursday;
          weekNumber = daysDiff div 7 + 1;
          weekYear = year_from_days thursday
      in toString_int weekYear @ ''-W'' @ padStart 2 (CHR ''0'') (toString_int weekNumber))"

section \<open>Sequences of operations on a store\<close>

text \<open>
  One call of a public operation that writes, with the arguments it is called with and the
  catalog as the configuration service returns it at that moment. The company is the one
  the service object was constructed for.
\<close>

datatype store_op =
    RecordEvent bool "quest list" "quest list" string string string bool
  | Claim bool "quest list" string string string string
  | MarkSeen bool string string string quest_type
  | Migrate bool "quest list" "quest list"

fun applyOp :: "string \<Rightarrow> store \<Rightarrow> store_op \<Rightarrow> store" where
  "applyOp cid s (RecordEvent conn dailyQuests weeklyQuests uid dk wk isSuccessMessage) =
     snd (updateProgress conn dailyQuests weeklyQuests cid uid dk wk isSuccessMessage s)"
| "applyOp cid s (Claim conn allQuests uid dk wk oid) =
     snd (claimObjective conn allQuests cid uid dk wk oid s)"
| "applyOp cid s (MarkSeen conn uid dk wk qt) = snd (markQuestSeen conn cid uid dk wk qt s)"
| "applyOp cid s (Migrate conn dailyQuests weeklyQuests) =
     migrateQuestProgress conn dailyQuests weeklyQuests cid s"

definition emptyStore :: store where
  "emptyStore = \<lparr>DailyQuestProgress = [], WeeklyQuestProgress = []\<rparr>"

text \<open>
  A store of freshly created documents: each as \<^verbatim>\<open>updateProgress\<close> or \<^verbatim>\<open>getUserProgress\<close> creates
  it for a company, a user, a period key and the quest that is first in the catalog (if any).
\<close>

definition freshStore ::
  "(string \<times> string \<times> string \<times> quest option) list
     \<Rightarrow> (string \<times> string \<times> string \<times> quest option) list \<Rightarrow> store" where
  "freshStore ds ws =
     \<lparr>DailyQuestProgress = map (\<lambda>(c, u, k, q). newDaily c u k q) ds,
      WeeklyQuestProgress = map (\<lambda>(c, u, k, q). newWeekly c u k q) ws\<rparr>"

text \<open>A document in which every claimed objective state is completed.\<close>

definition claimsEarned :: "'a quest_progress_scheme \<Rightarrow> bool" where
  "claimsEarned p \<longleftrightarrow> (\<forall>st\<in>set (Objectives p). claimed st \<longrightarrow> completed st)"

text \<open>A store all of whose documents are such.\<close>

definition storeEarned :: "store \<Rightarrow> bool" where
  "storeEarned s \<longleftrightarrow>
     (\<forall>p\<in>set (DailyQuestProgress s). claimsEarned p) \<and> (\<forall>p\<in>set (WeeklyQuestProgress s). claimsEarned p)"

section \<open>The default catalog and sample states\<close>

text \<open>\<^verbatim>\<open>defaultQuests\<close> of \<^verbatim>\<open>QuestConfigService.initializeDefaultQuests\<close>, lines 23-70.\<close>

definition daily_success1 :: quest_objective where
  "daily_success1 =
     \<lparr>messageCount = 0, successMessageCount = 1, xpReward = 10, order = 1,
      id_obj = ''daily_success1''\<rparr>"

definition daily_send10 :: quest_objective where
  "daily_send10 =
     \<lparr>messageCount = 10, successMessageCount = 0, xpReward = 15, order = 2,
      id_obj = ''daily_send10''\<rparr>"

definition weekly_send100 :: quest_objective where
  "weekly_send100 =
     \<lparr>messageCount = 100, successMessageCount = 0, xpReward = 15, order = 1,
      id_obj = ''weekly_send100''\<rparr>"

definition weekly_success10 :: quest_objective where
  "weekly_success10 =
     \<lparr>messageCount = 0, successMessageCount = 10, xpReward = 50, order = 2,
      id_obj = ''weekly_success10''\<rparr>"

definition defaultDailyQuest :: quest where
  "defaultDailyQuest =
     \<lparr>questId = ''daily_quest'', questType = Daily, objectives = [daily_success1, daily_send10]\<rparr>"

definition defaultWeeklyQuest :: quest where
  "defaultWeeklyQuest =
     \<lparr>questId = ''weekly_quest'', questType = Weekly,
      objectives = [weekly_send100, weekly_success10]\<rparr>"

text \<open>The daily quest before \<open>daily_send10\<close> was added to it.\<close>

definition earlierDailyQuest :: quest where
  "earlierDailyQuest =
     \<lparr>questId = ''daily_quest'', questType = Daily, objectives = [daily_success1]\<rparr>"

text \<open>The daily quest after the reward of \<open>daily_success1\<close> was raised to 20.\<close>

definition raisedDailyQuest :: quest where
  "raisedDailyQuest =
     \<lparr>questId = ''daily_quest'', questType = Daily,
      objectives = [daily_success1\<lparr>xpReward := 20\<rparr>, daily_send10]\<rparr>"

text \<open>
  A user of company \<open>acme\<close> on 2024-12-31: the document seeded from the earlier daily quest,
  with twelve messages counted.
\<close>

definition twelve_doc :: daily_quest_progress where
  "twelve_doc =
     (newDaily ''acme'' ''u1'' ''2024-12-31'' (Some earlierDailyQuest))\<lparr>currentMessages := 12\<rparr>"

definition twelve_store :: store where
  "twelve_store = \<lparr>DailyQuestProgress = [twelve_doc], WeeklyQuestProgress = []\<rparr>"

text \<open>The document seeded from the default daily quest, with twelve messages counted.\<close>

definition busy_doc :: daily_quest_progress where
  "busy_doc =
     (newDaily ''acme'' ''u1'' ''2024-12-31'' (Some defaultDailyQuest))\<lparr>currentMessages := 12\<rparr>"

text \<open>The store after the first success message of the user, starting from no documents.\<close>

definition earned_store :: store where
  "earned_store =
     applyOp ''acme'' emptyStore
       (RecordEvent True [defaultDailyQuest] [defaultWeeklyQuest] ''u1'' ''2024-12-31'' ''2025-W01'' True)"

text \<open>The document of the default daily quest with twelve messages and three success messages.\<close>

definition counted_store :: store where
  "counted_store =
     \<lparr>DailyQuestProgress = [busy_doc\<lparr>currentSuccessMessages := 3\<rparr>], WeeklyQuestProgress = []\<rparr>"

text \<open>
  A success message, the claim of \<open>daily_success1\<close>, a look at the daily quest, and a migration
  after the reward was raised.
\<close>

definition sample_ops :: "store_op list" where
  "sample_ops =
     [RecordEvent True [defaultDailyQuest] [defaultWeeklyQuest] ''u1'' ''2024-12-31'' ''2025-W01'' True,
      Claim True [defaultDailyQuest, defaultWeeklyQuest] ''u1'' ''2024-12-31'' ''2025-W01'' ''daily_success1'',
      MarkSeen True ''u1'' ''2024-12-31'' ''2025-W01'' Daily,
      Migrate True [raisedDailyQuest] [defaultWeeklyQuest]]"

section \<open>Properties of the completion check\<close>

lemma checkLoop_eq:
  "checkLoop cm cs objs qc =
     (map (\<lambda>obj. if \<not> completed obj \<and>
                     ((0 < messageCount obj \<and> messageCount obj \<le> cm) \<or>
                      (messageCount obj = 0 \<and> 0 < successMessageCount obj \<and>
                       successMessageCount obj \<le> cs))
                  then obj\<lparr>completed := True\<rparr> else obj) objs,
      qc \<or> (\<exists>obj\<in>set objs. \<not> completed obj \<and>
                     ((0 < messageCount obj \<and> messageCount obj \<le> cm) \<or>
                      (messageCount obj = 0 \<and> 0 < successMessageCount obj \<and>
                       successMessageCount obj \<le> cs))))"
  by (induction objs arbitrary: qc) (auto simp: Let_def)

text \<open>
  C6. The completion check marks a state that is not yet completed exactly when its message
  threshold is positive and reached by \<open>currentMessages\<close>, or its message threshold is 0, its
  success threshold is positive and reached by \<open>currentSuccessMessages\<close>; nothing else of a
  state changes, so a state with both thresholds 0 stays as it is; \<open>QuestSeen\<close> becomes false
  exactly when some state is marked, and keeps its value otherwise. The daily and the weekly
  check are this check.
\<close>

theorem checkObjectiveCompletion_marks:
  fixes progress :: "'a quest_progress_scheme"
  shows
  "Objectives (checkObjectiveCompletion progress) =
     map (\<lambda>obj. if \<not> completed obj \<and>
                     ((0 < messageCount obj \<and> messageCount obj \<le> currentMessages progress) \<or>
                      (messageCount obj = 0 \<and> 0 < successMessageCount obj \<and>
                       successMessageCount obj \<le> currentSuccessMessages progress))
                  then obj\<lparr>completed := True\<rparr> else obj) (Objectives progress)
   \<and> (\<forall>i < length (Objectives progress).
         messageCount (Objectives progress ! i) = 0 \<and> successMessageCount (Objectives progress ! i) = 0
         \<longrightarrow> Objectives (checkObjectiveCompletion progress) ! i = Objectives progress ! i)
   \<and> QuestSeen (checkObjectiveCompletion progress) =
       (if \<exists>obj \<in> set (Objectives progress). \<not> completed obj \<and>
              ((0 < messageCount obj \<and> messageCount obj \<le> currentMessages progress) \<or>
               (messageCount obj = 0 \<and> 0 < successMessageCount obj \<and>
                successMessageCount obj \<le> currentSuccessMessages progress))
        then False else QuestSeen progress)
   \<and> currentMessages (checkObjectiveCompletion progress) = currentMessages progress
   \<and> currentSuccessMessages (checkObjectiveCompletion progress) = currentSuccessMessages progress
   \<and> checkObjectiveCompletionDaily d = checkObjectiveCompletion d
   \<and> checkObjectiveCompletionWeekly w = checkObjectiveCompletion w"
  by (auto simp: checkObjectiveCompletion_def checkLoop_eq
      checkObjectiveCompletionDaily_def checkObjectiveCompletionWeekly_def)

theorem checkObjectiveCompletion_marks_witness:
  "map completed (Objectives (checkObjectiveCompletion busy_doc)) = [False, True]
   \<and> QuestSeen busy_doc \<and> \<not> QuestSeen (checkObjectiveCompletion busy_doc)"
  using checkObjectiveCompletion_marks [where progress = busy_doc]
  by (simp add: busy_doc_def newDaily_def seedObjectives_def defaultDailyQuest_def
      daily_success1_def daily_send10_def)

section \<open>The week key at the turn of the year\<close>

text \<open>
  C3. For an instant whose calendar date in America/New_York is 2024-12-31, a Tuesday whose
  ISO week is week 1 of 2025, \<^verbatim>\<open>getWeekKey\<close> of \<^verbatim>\<open>QuestService.ts\<close> pairs the ISO week number
  with the calendar year of the date, and \<^verbatim>\<open>getWeekKey\<close> of \<^verbatim>\<open>part_002\<close> measures the week from
  the first Thursday on or after January 4th: neither returns \<open>2025-W01\<close>.
\<close>

theorem getWeekKey_at_2024_12_31:
  "getWeekKey \<lparr>ld_year = 2024, ld_month = 12, ld_day = 31\<rparr> = ''2024-W01''
   \<and> getWeekKey_part_002 \<lparr>ld_year = 2024, ld_month = 12, ld_day = 31\<rparr> = ''2025-W00''"
  by code_simp

section \<open>Properties of the migration\<close>

lemma addMissing_eq:
  "addMissing ids cfg objs nu =
     (objs @ map (\<lambda>c. \<lparr>messageCount = messageCount c, successMessageCount = successMessageCount c,
                        xpReward = xpReward c, order = order c, objectiveId = id_obj c,
                        completed = False, claimed = False\<rparr>)
                (filter (\<lambda>c. id_obj c \<notin> set ids) cfg),
      nu \<or> (\<exists>c\<in>set cfg. id_obj c \<notin> set ids))"
  by (induction cfg arbitrary: objs nu) auto

lemma sync_unchanged:
  "messageCount p = messageCount c \<Longrightarrow> successMessageCount p = successMessageCount c \<Longrightarrow>
   xpReward p = xpReward c \<Longrightarrow> order p = order c \<Longrightarrow>
   p\<lparr>messageCount := messageCount c, successMessageCount := successMessageCount c,
     xpReward := xpReward c, order := order c\<rparr> = (p::objective_progress)"
  by simp

lemma updateExisting_eq:
  "updateExisting cfg objs nu =
     (map (\<lambda>p. case find (\<lambda>obj. id_obj obj = objectiveId p) cfg of
                 None \<Rightarrow> p
               | Some c \<Rightarrow> p\<lparr>messageCount := messageCount c, successMessageCount := successMessageCount c,
                             xpReward := xpReward c, order := order c\<rparr>) objs,
      nu \<or> (\<exists>p\<in>set objs. \<exists>c. find (\<lambda>obj. id_obj obj = objectiveId p) cfg = Some c \<and>
               (messageCount p \<noteq> messageCount c \<or> successMessageCount p \<noteq> successMessageCount c \<or>
                xpReward p \<noteq> xpReward c \<or> order p \<noteq> order c)))"
proof (induction objs arbitrary: nu)
  case Nil
  show ?case by simp
next
  case (Cons p rest)
  show ?case
  proof (cases "find (\<lambda>obj. id_obj obj = objectiveId p) cfg")
    case None
    then show ?thesis by (simp add: Cons.IH)
  next
    case (Some c)
    show ?thesis
    proof (cases "messageCount p \<noteq> messageCount c \<or> successMessageCount p \<noteq> successMessageCount c \<or>
                  xpReward p \<noteq> xpReward c \<or> order p \<noteq> order c")
      case True
      with Some show ?thesis by (simp add: Cons.IH)
    next
      case False
      then have "p\<lparr>messageCount := messageCount c, successMessageCount := successMessageCount c,
                   xpReward := xpReward c, order := order c\<rparr> = p"
        by (simp add: sync_unchanged)
      with Some False show ?thesis by (simp add: Cons.IH)
    qed
  qed
qed


lemma migrateProgress_Some:
  "migrateProgress (Some quest) progress =
     (progress\<lparr>Objectives :=
        map (\<lambda>p. case find (\<lambda>obj. id_obj obj = objectiveId p) (objectives quest) of
                 None \<Rightarrow> p
               | Some c \<Rightarrow> p\<lparr>messageCount := messageCount c, successMessageCount := successMessageCount c,
                             xpReward := xpReward c, order := order c\<rparr>)
          (Objectives progress @
           map (\<lambda>c. \<lparr>messageCount = messageCount c, successMessageCount = successMessageCount c,
                        xpReward = xpReward c, order = order c, objectiveId = id_obj c,
                        completed = False, claimed = False\<rparr>)
                (filter (\<lambda>c. id_obj c \<notin> set (map objectiveId (Objectives progress))) (objectives quest)))\<rparr>,
      (\<exists>c\<in>set (objectives quest). id_obj c \<notin> set (map objectiveId (Objectives progress))) \<or>
      (\<exists>p\<in>set (Objectives progress @
           map (\<lambda>c. \<lparr>messageCount = messageCount c, successMessageCount = successMessageCount c,
                        xpReward = xpReward c, order = order c, objectiveId = id_obj c,
                        completed = False, claimed = False\<rparr>)
                (filter (\<lambda>c. id_obj c \<notin> set (map objectiveId (Objectives progress))) (objectives quest))).
          \<exists>c. find (\<lambda>obj. id_obj obj = objectiveId p) (objectives quest) = Some c \<and>
               (messageCount p \<noteq> messageCount c \<or> successMessageCount p \<noteq> successMessageCount c \<or>
                xpReward p \<noteq> xpReward c \<or> order p \<noteq> order c)))"
  unfolding migrateProgress_def addMissing_eq updateExisting_eq Let_def
  by (simp del: set_map map_append set_append)

lemma addMissing_no_update:
  assumes "\<not> snd (addMissing ids cfg objs nu)"
  shows "fst (addMissing ids cfg objs nu) = objs \<and> \<not> nu"
proof -
  from assms have "\<not> nu" and "\<forall>c\<in>set cfg. id_obj c \<in> set ids"
    by (simp_all add: addMissing_eq)
  then have "filter (\<lambda>c. id_obj c \<notin> set ids) cfg = []"
    by (simp add: filter_empty_conv)
  with \<open>\<not> nu\<close> show ?thesis by (simp add: addMissing_eq)
qed

lemma updateExisting_no_update:
  assumes "\<not> snd (updateExisting cfg objs nu)"
  shows "fst (updateExisting cfg objs nu) = objs \<and> \<not> nu"
proof -
  let ?sync = "\<lambda>p::objective_progress. case find (\<lambda>obj. id_obj obj = objectiveId p) cfg of
                 None \<Rightarrow> p
               | Some c \<Rightarrow> p\<lparr>messageCount := messageCount c, successMessageCount := successMessageCount c,
                             xpReward := xpReward c, order := order c\<rparr>"
  from assms have "\<not> nu"
    and h: "\<forall>p\<in>set objs. \<forall>c. find (\<lambda>obj. id_obj obj = objectiveId p) cfg = Some c \<longrightarrow>
               messageCount p = messageCount c \<and> successMessageCount p = successMessageCount c \<and>
               xpReward p = xpReward c \<and> order p = order c"
    by (simp_all add: updateExisting_eq)
  have "?sync p = p" if "p \<in> set objs" for p
  proof (cases "find (\<lambda>obj. id_obj obj = objectiveId p) cfg")
    case None
    then show ?thesis by simp
  next
    case (Some c)
    with h that have "messageCount p = messageCount c" "successMessageCount p = successMessageCount c"
                "xpReward p = xpReward c" "order p = order c"
      by blast+
    with Some show ?thesis by (simp add: sync_unchanged)
  qed
  then have "map ?sync objs = objs"
    by (intro map_idI)
  with \<open>\<not> nu\<close> show ?thesis by (simp add: updateExisting_eq)
qed

lemma migrateProgress_no_update:
  assumes nu: "\<not> snd (migrateProgress q progress)"
  shows "fst (migrateProgress q progress) = progress"
proof (cases q)
  case None
  then show ?thesis by (simp add: migrateProgress_def)
next
  case (Some quest)
  let ?r1 = "addMissing (map objectiveId (Objectives progress)) (objectives quest) (Objectives progress) False"
  let ?r2 = "updateExisting (objectives quest) (fst ?r1) (snd ?r1)"
  from Some have m: "migrateProgress q progress = (progress\<lparr>Objectives := fst ?r2\<rparr>, snd ?r2)"
    by (simp add: migrateProgress_def split_def Let_def)
  with nu have "\<not> snd ?r2" by simp
  note u = updateExisting_no_update [OF this]
  from u have r2: "fst ?r2 = fst ?r1" by (rule conjunct1)
  from u have n1: "\<not> snd ?r1" by (rule conjunct2)
  from addMissing_no_update [OF n1] have "fst ?r1 = Objectives progress"
    by (rule conjunct1)
  with r2 have "fst ?r2 = Objectives progress" by (rule trans)
  with m show ?thesis by simp
qed

lemma migrateDoc_eq:
  "migrateDoc q cid progress =
     (if companyId progress = cid then fst (migrateProgress q progress) else progress)"
proof -
  obtain p' nu where eq: "migrateProgress q progress = (p', nu)"
    by (cases "migrateProgress q progress")
  show ?thesis
  proof (cases nu)
    case True
    with eq show ?thesis by (simp add: migrateDoc_def)
  next
    case False
    with eq migrateProgress_no_update [of q progress] have "p' = progress" by simp
    with eq False show ?thesis by (simp add: migrateDoc_def)
  qed
qed


lemma Objectives_migrateDoc:
  "Objectives (migrateDoc (Some quest) cid progress) =
     (if companyId progress = cid then
        map (\<lambda>p. case find (\<lambda>obj. id_obj obj = objectiveId p) (objectives quest) of
                 None \<Rightarrow> p
               | Some c \<Rightarrow> p\<lparr>messageCount := messageCount c, successMessageCount := successMessageCount c,
                             xpReward := xpReward c, order := order c\<rparr>)
          (Objectives progress @
           map (\<lambda>c. \<lparr>messageCount = messageCount c, successMessageCount = successMessageCount c,
                        xpReward = xpReward c, order = order c, objectiveId = id_obj c,
                        completed = False, claimed = False\<rparr>)
                (filter (\<lambda>c. id_obj c \<notin> set (map objectiveId (Objectives progress))) (objectives quest)))
      else Objectives progress)"
  by (simp add: migrateDoc_eq migrateProgress_Some del: set_map map_append set_append map_map)

lemma migrateDoc_None: "migrateDoc None cid progress = progress"
  by (simp add: migrateDoc_eq migrateProgress_def)

lemma migrateDoc_only_Objectives:
  "migrateDoc q cid progress = progress\<lparr>Objectives := Objectives (migrateDoc q cid progress)\<rparr>"
proof (cases q)
  case None
  then show ?thesis by (simp add: migrateDoc_None)
next
  case (Some quest)
  then show ?thesis
    by (simp add: migrateDoc_eq migrateProgress_Some del: set_map map_append set_append map_map)
qed

lemma migrateQuestProgress_maps:
  "DailyQuestProgress (migrateQuestProgress True dailyQuests weeklyQuests cid s) =
     map (migrateDoc (first dailyQuests) cid) (DailyQuestProgress s)"
  "WeeklyQuestProgress (migrateQuestProgress True dailyQuests weeklyQuests cid s) =
     map (migrateDoc (first weeklyQuests) cid) (WeeklyQuestProgress s)"
  by (simp_all add: migrateQuestProgress_def Let_def migrateDoc_None map_idI
      split: option.splits)

text \<open>
  C5. Migration of a document keeps every state it had, at its position, with its id and its
  \<open>completed\<close> and \<open>claimed\<close> flags. A state whose id the catalog's quest still has gets the four
  definition fields of the catalog's (first) objective with that id and nothing else; a state
  whose id the quest no longer has is left as it is. Only the state list of a document
  changes, and \<^verbatim>\<open>migrateQuestProgress\<close> does this to every document of both collections.
\<close>

theorem migration_frame:
  fixes progress :: "'a quest_progress_scheme"
  assumes "j < length (Objectives progress)"
  shows
    "length (Objectives progress) \<le> length (Objectives (migrateDoc q cid progress))
     \<and> objectiveId (Objectives (migrateDoc q cid progress) ! j) = objectiveId (Objectives progress ! j)
     \<and> completed (Objectives (migrateDoc q cid progress) ! j) = completed (Objectives progress ! j)
     \<and> claimed (Objectives (migrateDoc q cid progress) ! j) = claimed (Objectives progress ! j)
     \<and> (case q of
          None \<Rightarrow> Objectives (migrateDoc q cid progress) ! j = Objectives progress ! j
        | Some quest \<Rightarrow>
            if companyId progress = cid then
              (case find (\<lambda>obj. id_obj obj = objectiveId (Objectives progress ! j)) (objectives quest) of
                 None \<Rightarrow> Objectives (migrateDoc q cid progress) ! j = Objectives progress ! j
               | Some configObj \<Rightarrow>
                   Objectives (migrateDoc q cid progress) ! j =
                     (Objectives progress ! j)\<lparr>messageCount := messageCount configObj,
                                                successMessageCount := successMessageCount configObj,
                                                xpReward := xpReward configObj,
                                                order := order configObj\<rparr>)
            else Objectives (migrateDoc q cid progress) ! j = Objectives progress ! j)
     \<and> migrateDoc q cid progress = progress\<lparr>Objectives := Objectives (migrateDoc q cid progress)\<rparr>
     \<and> DailyQuestProgress (migrateQuestProgress True dailyQuests weeklyQuests cid s) =
         map (migrateDoc (first dailyQuests) cid) (DailyQuestProgress s)
     \<and> WeeklyQuestProgress (migrateQuestProgress True dailyQuests weeklyQuests cid s) =
         map (migrateDoc (first weeklyQuests) cid) (WeeklyQuestProgress s)"
proof (cases q)
  case None
  with migrateQuestProgress_maps [of dailyQuests weeklyQuests cid s] show ?thesis
    by (simp add: migrateDoc_None)
next
  case (Some quest)
  show ?thesis
  proof (cases "companyId progress = cid")
    case False
    with Some migrateQuestProgress_maps [of dailyQuests weeklyQuests cid s] show ?thesis
      by (simp add: migrateDoc_eq)
  next
    case True
    have nth: "Objectives (migrateDoc q cid progress) ! j =
      (case find (\<lambda>obj. id_obj obj = objectiveId (Objectives progress ! j)) (objectives quest) of
                 None \<Rightarrow> Objectives progress ! j
               | Some c \<Rightarrow> (Objectives progress ! j)\<lparr>messageCount := messageCount c,
                    successMessageCount := successMessageCount c,
                    xpReward := xpReward c, order := order c\<rparr>)"
      using assms Some True
      by (simp add: Objectives_migrateDoc nth_append split: option.splits
          del: set_map map_append set_append map_map)
    have len: "length (Objectives progress) \<le> length (Objectives (migrateDoc q cid progress))"
      using Some True by (simp add: Objectives_migrateDoc del: set_map)
    from nth have fields:
      "objectiveId (Objectives (migrateDoc q cid progress) ! j) = objectiveId (Objectives progress ! j)"
      "completed (Objectives (migrateDoc q cid progress) ! j) = completed (Objectives progress ! j)"
      "claimed (Objectives (migrateDoc q cid progress) ! j) = claimed (Objectives progress ! j)"
      by (simp_all split: option.splits)
    from nth Some True have cases:
      "(case q of
          None \<Rightarrow> Objectives (migrateDoc q cid progress) ! j = Objectives progress ! j
        | Some quest \<Rightarrow>
            if companyId progress = cid then
              (case find (\<lambda>obj. id_obj obj = objectiveId (Objectives progress ! j)) (objectives quest) of
                 None \<Rightarrow> Objectives (migrateDoc q cid progress) ! j = Objectives progress ! j
               | Some configObj \<Rightarrow>
                   Objectives (migrateDoc q cid progress) ! j =
                     (Objectives progress ! j)\<lparr>messageCount := messageCount configObj,
                                                successMessageCount := successMessageCount configObj,
                                                xpReward := xpReward configObj,
                                                order := order configObj\<rparr>)
            else Objectives (migrateDoc q cid progress) ! j = Objectives progress ! j)"
      by (simp split: option.splits)
    from len fields cases migrateDoc_only_Objectives [of q cid progress]
      migrateQuestProgress_maps [of dailyQuests weeklyQuests cid s]
    show ?thesis by blast
  qed
qed

lemma sample_earned_doc:
  "hd (DailyQuestProgress earned_store) =
     \<lparr>companyId = ''acme'', userId = ''u1'', currentMessages = 0, currentSuccessMessages = 1,
      Objectives =
        [\<lparr>messageCount = 0, successMessageCount = 1, xpReward = 10, order = 1,
           objectiveId = ''daily_success1'', completed = True, claimed = False\<rparr>,
         \<lparr>messageCount = 10, successMessageCount = 0, xpReward = 15, order = 2,
           objectiveId = ''daily_send10'', completed = False, claimed = False\<rparr>],
      Completed = False, QuestSeen = False, NotificationCount = 0, dateKey = ''2024-12-31''\<rparr>"
  by code_simp

theorem migration_frame_witness:
  "Objectives (hd (DailyQuestProgress earned_store)) ! 0 =
     \<lparr>messageCount = 0, successMessageCount = 1, xpReward = 10, order = 1,
      objectiveId = ''daily_success1'', completed = True, claimed = False\<rparr>
   \<and> Objectives (migrateDoc (Some raisedDailyQuest) ''acme'' (hd (DailyQuestProgress earned_store))) ! 0 =
     \<lparr>messageCount = 0, successMessageCount = 1, xpReward = 20, order = 1,
      objectiveId = ''daily_success1'', completed = True, claimed = False\<rparr>"
proof -
  have h: "0 < length (Objectives (hd (DailyQuestProgress earned_store)))"
    by (simp add: sample_earned_doc)
  from migration_frame [OF h, where q = "Some raisedDailyQuest" and cid = "''acme''"]
  show ?thesis
    by (simp add: sample_earned_doc raisedDailyQuest_def daily_success1_def daily_send10_def)
qed

section \<open>A new objective of the catalog\<close>

lemma Objectives_checkObjectiveCompletion:
  "Objectives (checkObjectiveCompletion progress) =
     map (\<lambda>obj. if \<not> completed obj \<and>
                     ((0 < messageCount obj \<and> messageCount obj \<le> currentMessages progress) \<or>
                      (messageCount obj = 0 \<and> 0 < successMessageCount obj \<and>
                       successMessageCount obj \<le> currentSuccessMessages progress))
                  then obj\<lparr>completed := True\<rparr> else obj) (Objectives progress)"
  by (simp add: checkObjectiveCompletion_def checkLoop_eq)

lemma migrateDoc_counters:
  "currentMessages (migrateDoc q cid progress) = currentMessages progress"
  "currentSuccessMessages (migrateDoc q cid progress) = currentSuccessMessages progress"
  by (subst migrateDoc_only_Objectives, simp)+

lemma migrateDoc_state:
  assumes "st \<in> set (Objectives (migrateDoc (Some quest) cid progress))"
    and "companyId progress = cid"
  shows "\<exists>p. (p \<in> set (Objectives progress) \<or>
              (\<exists>c\<in>set (objectives quest). id_obj c \<notin> objectiveId ` set (Objectives progress) \<and>
                 p = \<lparr>messageCount = messageCount c, successMessageCount = successMessageCount c,
                      xpReward = xpReward c, order = order c, objectiveId = id_obj c,
                      completed = False, claimed = False\<rparr>)) \<and>
             objectiveId st = objectiveId p \<and> completed st = completed p \<and> claimed st = claimed p \<and>
             (case find (\<lambda>obj. id_obj obj = objectiveId p) (objectives quest) of
                None \<Rightarrow> st = p
              | Some c \<Rightarrow> st = p\<lparr>messageCount := messageCount c,
                                  successMessageCount := successMessageCount c,
                                  xpReward := xpReward c, order := order c\<rparr>)"
proof -
  define mk where "mk = (\<lambda>c::quest_objective.
     \<lparr>messageCount = messageCount c, successMessageCount = successMessageCount c,
      xpReward = xpReward c, order = order c, objectiveId = id_obj c,
      completed = False, claimed = False\<rparr>)"
  define sync where "sync = (\<lambda>p::objective_progress.
     case find (\<lambda>obj. id_obj obj = objectiveId p) (objectives quest) of
       None \<Rightarrow> p
     | Some c \<Rightarrow> p\<lparr>messageCount := messageCount c, successMessageCount := successMessageCount c,
                    xpReward := xpReward c, order := order c\<rparr>)"
  define new where "new = filter (\<lambda>c. id_obj c \<notin> set (map objectiveId (Objectives progress))) (objectives quest)"
  have M: "Objectives (migrateDoc (Some quest) cid progress) = map sync (Objectives progress @ map mk new)"
    using assms(2) unfolding Objectives_migrateDoc mk_def sync_def new_def by simp
  with assms(1) obtain p where p: "p \<in> set (Objectives progress @ map mk new)" and st: "st = sync p"
    by auto
  from p have origin: "p \<in> set (Objectives progress) \<or>
      (\<exists>c\<in>set (objectives quest). id_obj c \<notin> objectiveId ` set (Objectives progress) \<and> p = mk c)"
    by (auto simp: new_def)
  have same: "objectiveId st = objectiveId p \<and> completed st = completed p \<and> claimed st = claimed p"
    unfolding st sync_def by (simp split: option.splits)
  have upd: "(case find (\<lambda>obj. id_obj obj = objectiveId p) (objectives quest) of
                None \<Rightarrow> st = p
              | Some c \<Rightarrow> st = p\<lparr>messageCount := messageCount c,
                                  successMessageCount := successMessageCount c,
                                  xpReward := xpReward c, order := order c\<rparr>)"
    unfolding st sync_def by (simp split: option.splits)
  from origin same upd show ?thesis
    unfolding mk_def by blast
qed

text \<open>
  What migration and the completion check do for an objective that is new in the catalog.
  When the catalog's quest has an objective whose id no state of a document of the company
  has, the migrated document has a state with that id, and every state with that id is
  neither completed nor claimed and carries the definition fields of the catalog's
  objective. The completion check, run on the migrated document, marks these states
  completed (and leaves them unclaimed) when the message threshold is positive and
  \<open>currentMessages\<close> has reached it.
\<close>

lemma migration_adds_uncompleted:
  fixes progress :: "'a quest_progress_scheme"
  assumes cfg: "find (\<lambda>obj. id_obj obj = oid) (objectives quest) = Some configObj"
    and fresh: "oid \<notin> objectiveId ` set (Objectives progress)"
    and own: "companyId progress = cid"
  shows
    "(\<exists>st \<in> set (Objectives (migrateDoc (Some quest) cid progress)). objectiveId st = oid)
     \<and> (\<forall>st \<in> set (Objectives (migrateDoc (Some quest) cid progress)).
           objectiveId st = oid \<longrightarrow>
             \<not> completed st \<and> \<not> claimed st \<and>
             messageCount st = messageCount configObj \<and>
             successMessageCount st = successMessageCount configObj \<and>
             xpReward st = xpReward configObj \<and> order st = order configObj)
     \<and> (0 < messageCount configObj \<and> messageCount configObj \<le> currentMessages progress \<longrightarrow>
          (\<forall>st \<in> set (Objectives (checkObjectiveCompletion (migrateDoc (Some quest) cid progress))).
             objectiveId st = oid \<longrightarrow> completed st \<and> \<not> claimed st))"
proof -
  let ?M = "Objectives (migrateDoc (Some quest) cid progress)"
  from cfg have in_cfg: "configObj \<in> set (objectives quest)" and id: "id_obj configObj = oid"
    by (auto simp: find_Some_iff)
  have all: "\<not> completed st \<and> \<not> claimed st \<and>
             messageCount st = messageCount configObj \<and>
             successMessageCount st = successMessageCount configObj \<and>
             xpReward st = xpReward configObj \<and> order st = order configObj"
    if "st \<in> set ?M" and "objectiveId st = oid" for st
  proof -
    from migrateDoc_state [OF that(1) own] obtain p where
      origin: "p \<in> set (Objectives progress) \<or>
              (\<exists>c\<in>set (objectives quest). id_obj c \<notin> objectiveId ` set (Objectives progress) \<and>
                 p = \<lparr>messageCount = messageCount c, successMessageCount = successMessageCount c,
                      xpReward = xpReward c, order = order c, objectiveId = id_obj c,
                      completed = False, claimed = False\<rparr>)"
      and same: "objectiveId st = objectiveId p" "completed st = completed p" "claimed st = claimed p"
      and upd: "(case find (\<lambda>obj. id_obj obj = objectiveId p) (objectives quest) of
                None \<Rightarrow> st = p
              | Some c \<Rightarrow> st = p\<lparr>messageCount := messageCount c,
                                  successMessageCount := successMessageCount c,
                                  xpReward := xpReward c, order := order c\<rparr>)"
      by blast
    from same(1) that(2) have pid: "objectiveId p = oid" by simp
    with fresh have "p \<notin> set (Objectives progress)" by auto
    with origin have flags: "\<not> completed p \<and> \<not> claimed p" by auto
    from upd pid cfg have "st = p\<lparr>messageCount := messageCount configObj,
                                  successMessageCount := successMessageCount configObj,
                                  xpReward := xpReward configObj, order := order configObj\<rparr>"
      by simp
    with flags show ?thesis by simp
  qed
  have ex: "\<exists>st \<in> set ?M. objectiveId st = oid"
  proof -
    define mk where "mk = (\<lambda>c::quest_objective.
       \<lparr>messageCount = messageCount c, successMessageCount = successMessageCount c,
        xpReward = xpReward c, order = order c, objectiveId = id_obj c,
        completed = False, claimed = False\<rparr>)"
    define sync where "sync = (\<lambda>p::objective_progress.
       case find (\<lambda>obj. id_obj obj = objectiveId p) (objectives quest) of
         None \<Rightarrow> p
       | Some c \<Rightarrow> p\<lparr>messageCount := messageCount c, successMessageCount := successMessageCount c,
                      xpReward := xpReward c, order := order c\<rparr>)"
    define new where "new = filter (\<lambda>c. id_obj c \<notin> set (map objectiveId (Objectives progress))) (objectives quest)"
    have M: "?M = map sync (Objectives progress @ map mk new)"
      using own unfolding Objectives_migrateDoc mk_def sync_def new_def by simp
    from in_cfg id fresh have "configObj \<in> set new"
      by (simp add: new_def)
    then have "sync (mk configObj) \<in> set ?M"
      by (simp add: M)
    moreover have "objectiveId (sync (mk configObj)) = oid"
      using id by (simp add: sync_def mk_def split: option.splits)
    ultimately show ?thesis by blast
  qed
  have after: "completed st \<and> \<not> claimed st"
    if reached: "0 < messageCount configObj \<and> messageCount configObj \<le> currentMessages progress"
      and mem: "st \<in> set (Objectives (checkObjectiveCompletion (migrateDoc (Some quest) cid progress)))"
      and sid: "objectiveId st = oid" for st
  proof -
    from mem obtain st0 where st0: "st0 \<in> set ?M"
      and st: "st = (if \<not> completed st0 \<and>
                     ((0 < messageCount st0 \<and> messageCount st0 \<le> currentMessages progress) \<or>
                      (messageCount st0 = 0 \<and> 0 < successMessageCount st0 \<and>
                       successMessageCount st0 \<le> currentSuccessMessages progress))
                  then st0\<lparr>completed := True\<rparr> else st0)"
      unfolding Objectives_checkObjectiveCompletion migrateDoc_counters by auto
    from st sid have "objectiveId st0 = oid" by (simp split: if_splits)
    from all [OF st0 this] reached st show ?thesis by simp
  qed
  from ex all after show ?thesis by blast
qed

text \<open>
  C4. The scenario in \<^verbatim>\<open>getUserProgress\<close>: the daily quest has gained \<open>daily_send10\<close> (threshold 10,
  reward 15) and the user's document of the day has twelve messages. The operation loads the
  document (line 320) before it runs \<^verbatim>\<open>migrateQuestProgress\<close> (line 390); the migration loads the
  stored document again, pushes the state of the new objective, not completed, and saves it.
  The completion check that follows (line 393) runs on the instance loaded at line 320, which
  has no state for the new objective: it marks nothing, so the save at line 395 writes
  nothing, and the read-model reports the objective at 10 of 10 and not completed. The stored
  document is left with the new state not completed. Run on the stored document, the same
  check marks the state completed.
\<close>

theorem getUserProgress_checks_loaded_document:
  "find (isDaily ''acme'' ''u1'' ''2024-12-31'') (DailyQuestProgress twelve_store) = Some twelve_doc
   \<and> currentMessages twelve_doc = 12
   \<and> map objectiveId (Objectives twelve_doc) = [''daily_success1'']
   \<and> Objectives (hd (DailyQuestProgress
         (migrateQuestProgress True [defaultDailyQuest] [defaultWeeklyQuest] ''acme'' twelve_store))) =
       [\<lparr>messageCount = 0, successMessageCount = 1, xpReward = 10, order = 1,
          objectiveId = ''daily_success1'', completed = False, claimed = False\<rparr>,
        \<lparr>messageCount = 10, successMessageCount = 0, xpReward = 15, order = 2,
          objectiveId = ''daily_send10'', completed = False, claimed = False\<rparr>]
   \<and> checkObjectiveCompletionDaily twelve_doc = twelve_doc
   \<and> objectives_v (daily (getUserProgress True [defaultDailyQuest] [defaultWeeklyQuest]
           ''acme'' ''u1'' ''2024-12-31'' ''2025-W01'' twelve_store)) ! 1 =
       \<lparr>id_v = ''daily_send10'', title_v = ''Send 10 Messages'',
        description_v = ''Send 10 messages in any channel'',
        progress_v = 10, target_v = 10, completed_v = False,
        claimed_v = False, xp_v = 15, order_v = 2\<rparr>
   \<and> Objectives (checkObjectiveCompletionDaily (hd (DailyQuestProgress
         (migrateQuestProgress True [defaultDailyQuest] [defaultWeeklyQuest] ''acme'' twelve_store)))) ! 1 =
       \<lparr>messageCount = 10, successMessageCount = 0, xpReward = 15, order = 2,
        objectiveId = ''daily_send10'', completed = True, claimed = False\<rparr>"
  by code_simp

section \<open>Properties of claiming\<close>

lemma findObjective_Some:
  "findObjective allQuests oid = Some (objective, qt) \<Longrightarrow>
     \<exists>quest\<in>set allQuests. find (\<lambda>obj. id_obj obj = oid) (objectives quest) = Some objective
        \<and> questType quest = qt"
  by (induction allQuests) (auto split: option.splits)

lemma find_setClaimed:
  "find (\<lambda>obj. objectiveId obj = oid) objs = Some st \<Longrightarrow>
     find (\<lambda>obj. objectiveId obj = oid) (setClaimed oid objs) = Some (st\<lparr>claimed := True\<rparr>)"
  by (induction objs) (auto split: if_splits)

lemma find_saveDoc:
  "find sel xs = Some p \<Longrightarrow> sel p' \<Longrightarrow> find sel (saveDoc sel p' xs) = Some p'"
  by (induction xs) (auto split: if_splits)

lemma success_failure [simp]: "\<not> success (failure msg)"
  by (simp add: failure_def)

lemma claimProgress_xp:
  "success (fst (claimProgress objective oid progress)) \<Longrightarrow>
     xp (fst (claimProgress objective oid progress)) = xpReward objective"
  by (auto simp: claimProgress_def split: option.splits if_splits)

lemma claimObjective_down:
  "claimObjective False allQuests cid uid dk wk oid s = (failure ''Internal server error'', s)"
  by (simp add: claimObjective_def)

lemma claimObjective_unknown:
  "findObjective allQuests oid = None \<Longrightarrow>
     claimObjective True allQuests cid uid dk wk oid s = (failure ''Objective not found'', s)"
  by (simp add: claimObjective_def)

lemma claimObjective_Daily_none:
  "findObjective allQuests oid = Some (objective, Daily) \<Longrightarrow>
   find (isDaily cid uid dk) (DailyQuestProgress s) = None \<Longrightarrow>
     claimObjective True allQuests cid uid dk wk oid s = (failure ''Quest progress not found'', s)"
  by (simp add: claimObjective_def)

lemma claimObjective_Weekly_none:
  "findObjective allQuests oid = Some (objective, Weekly) \<Longrightarrow>
   find (isWeekly cid uid wk) (WeeklyQuestProgress s) = None \<Longrightarrow>
     claimObjective True allQuests cid uid dk wk oid s = (failure ''Quest progress not found'', s)"
  by (simp add: claimObjective_def)

lemma claimObjective_Daily:
  "findObjective allQuests oid = Some (objective, Daily) \<Longrightarrow>
   find (isDaily cid uid dk) (DailyQuestProgress s) = Some progress \<Longrightarrow>
     claimObjective True allQuests cid uid dk wk oid s =
       (fst (claimProgress objective oid progress),
        if success (fst (claimProgress objective oid progress))
        then s\<lparr>DailyQuestProgress :=
                 saveDoc (isDaily cid uid dk) (snd (claimProgress objective oid progress))
                   (DailyQuestProgress s)\<rparr>
        else s)"
  by (simp add: claimObjective_def split_def Let_def)

lemma claimObjective_Weekly:
  "findObjective allQuests oid = Some (objective, Weekly) \<Longrightarrow>
   find (isWeekly cid uid wk) (WeeklyQuestProgress s) = Some progress \<Longrightarrow>
     claimObjective True allQuests cid uid dk wk oid s =
       (fst (claimProgress objective oid progress),
        if success (fst (claimProgress objective oid progress))
        then s\<lparr>WeeklyQuestProgress :=
                 saveDoc (isWeekly cid uid wk) (snd (claimProgress objective oid progress))
                   (WeeklyQuestProgress s)\<rparr>
        else s)"
  by (simp add: claimObjective_def split_def Let_def)

text \<open>
  C1, as the code has it. A successful claim returns the reward of the objective found in the
  catalog while the quest type was resolved: the first objective with the id in the first
  quest of \<^verbatim>\<open>getAllQuests()\<close> that has one. The reward stored in the objective state of the
  progress document is not read.
\<close>

theorem claim_reward_from_catalog:
  assumes run: "claimObjective conn allQuests cid uid dk wk oid s = (r, s')"
    and ok: "success r"
  shows "\<exists>quest\<in>set allQuests. \<exists>objective.
           find (\<lambda>obj. id_obj obj = oid) (objectives quest) = Some objective
           \<and> findObjective allQuests oid = Some (objective, questType quest)
           \<and> xp r = xpReward objective"
proof -
  have conn
  proof (rule ccontr)
    assume "\<not> conn"
    with run claimObjective_down [of allQuests cid uid dk wk oid s]
    have "r = failure ''Internal server error''" by simp
    with ok show False by simp
  qed
  with run have run': "claimObjective True allQuests cid uid dk wk oid s = (r, s')" by simp
  obtain objective qt where f: "findObjective allQuests oid = Some (objective, qt)"
  proof (cases "findObjective allQuests oid")
    case None
    from claimObjective_unknown [OF None, of cid uid dk wk s] run' ok show ?thesis by simp
  next
    case (Some a)
    with that show ?thesis by (cases a) simp
  qed
  have "xp r = xpReward objective"
  proof (cases qt)
    case Daily
    show ?thesis
    proof (cases "find (isDaily cid uid dk) (DailyQuestProgress s)")
      case None
      from claimObjective_Daily_none [OF f [unfolded Daily] None, of wk] run' ok show ?thesis by simp
    next
      case (Some progress)
      from claimObjective_Daily [OF f [unfolded Daily] Some, of wk] run'
      have "r = fst (claimProgress objective oid progress)" by simp
      with ok claimProgress_xp [of objective oid progress] show ?thesis by simp
    qed
  next
    case Weekly
    show ?thesis
    proof (cases "find (isWeekly cid uid wk) (WeeklyQuestProgress s)")
      case None
      from claimObjective_Weekly_none [OF f [unfolded Weekly] None, of dk] run' ok show ?thesis by simp
    next
      case (Some progress)
      from claimObjective_Weekly [OF f [unfolded Weekly] Some, of dk] run'
      have "r = fst (claimProgress objective oid progress)" by simp
      with ok claimProgress_xp [of objective oid progress] show ?thesis by simp
    qed
  qed
  with findObjective_Some [OF f] f show ?thesis by blast
qed

theorem claim_reward_from_catalog_witness:
  "claimObjective True [raisedDailyQuest, defaultWeeklyQuest] ''acme'' ''u1'' ''2024-12-31'' ''2025-W01''
       ''daily_success1'' earned_store
     = (\<lparr>success = True, error = None, xp = 20\<rparr>,
        snd (claimObjective True [raisedDailyQuest, defaultWeeklyQuest] ''acme'' ''u1'' ''2024-12-31''
               ''2025-W01'' ''daily_success1'' earned_store))
   \<and> (\<exists>quest\<in>set [raisedDailyQuest, defaultWeeklyQuest]. \<exists>objective.
         find (\<lambda>obj. id_obj obj = ''daily_success1'') (objectives quest) = Some objective
         \<and> xpReward objective = 20)"
proof -
  have run: "claimObjective True [raisedDailyQuest, defaultWeeklyQuest] ''acme'' ''u1'' ''2024-12-31'' ''2025-W01''
       ''daily_success1'' earned_store
     = (\<lparr>success = True, error = None, xp = 20\<rparr>,
        snd (claimObjective True [raisedDailyQuest, defaultWeeklyQuest] ''acme'' ''u1'' ''2024-12-31''
               ''2025-W01'' ''daily_success1'' earned_store))"
    by code_simp
  have ok: "success \<lparr>success = True, error = None, xp = 20\<rparr>" by simp
  from claim_reward_from_catalog [OF run ok] run show ?thesis by auto
qed

text \<open>
  The user earned \<open>daily_success1\<close> while its reward was 10, and the document of the day
  records 10; the catalog then raised the reward to 20. The claim succeeds and returns 20.
\<close>

theorem claim_reward_not_snapshot:
  "fst (claimObjective True [raisedDailyQuest, defaultWeeklyQuest] ''acme'' ''u1'' ''2024-12-31''
          ''2025-W01'' ''daily_success1'' earned_store)
     = \<lparr>success = True, error = None, xp = 20\<rparr>
   \<and> hd (Objectives (hd (DailyQuestProgress earned_store))) =
       \<lparr>messageCount = 0, successMessageCount = 1, xpReward = 10, order = 1,
        objectiveId = ''daily_success1'', completed = True, claimed = False\<rparr>"
  by code_simp

lemma isDaily_Objectives [simp]:
  "isDaily cid uid dk (p\<lparr>Objectives := objs\<rparr>) = isDaily cid uid dk p"
  by (simp add: isDaily_def)

lemma isWeekly_Objectives [simp]:
  "isWeekly cid uid wk (p\<lparr>Objectives := objs\<rparr>) = isWeekly cid uid wk p"
  by (simp add: isWeekly_def)

lemma find_sel: "find sel xs = Some p \<Longrightarrow> sel p"
  by (auto simp: find_Some_iff)

text \<open>
  C2. With the database reachable, \<^verbatim>\<open>claimObjective\<close> answers \<open>Objective not found\<close> when the
  catalog has no objective with the id, \<open>Quest progress not found\<close> when the period has no
  document, \<open>Objective progress not found\<close> when the document has no state with the id (the
  three are the not-found failures); \<open>Objective not completed yet\<close> when the first state with
  the id is not completed; \<open>Objective already claimed\<close> when it is completed and claimed; and
  otherwise, the state being completed and unclaimed, it succeeds, and the stored document is
  the loaded one with \<open>claimed\<close> set on that state. Whenever it does not succeed the store is
  unchanged.
\<close>

theorem claimObjective_outcomes:
  assumes run: "claimObjective True allQuests cid uid dk wk oid s = (r, s')"
  shows
    "(findObjective allQuests oid = None \<longrightarrow> r = failure ''Objective not found'' \<and> s' = s)
     \<and> (\<forall>objective. findObjective allQuests oid = Some (objective, Daily)
          \<and> find (isDaily cid uid dk) (DailyQuestProgress s) = None
          \<longrightarrow> r = failure ''Quest progress not found'' \<and> s' = s)
     \<and> (\<forall>objective progress. findObjective allQuests oid = Some (objective, Daily)
          \<and> find (isDaily cid uid dk) (DailyQuestProgress s) = Some progress
          \<and> find (\<lambda>obj. objectiveId obj = oid) (Objectives progress) = None
          \<longrightarrow> r = failure ''Objective progress not found'' \<and> s' = s)
     \<and> (\<forall>objective progress st. findObjective allQuests oid = Some (objective, Daily)
          \<and> find (isDaily cid uid dk) (DailyQuestProgress s) = Some progress
          \<and> find (\<lambda>obj. objectiveId obj = oid) (Objectives progress) = Some st \<and> \<not> completed st
          \<longrightarrow> r = failure ''Objective not completed yet'' \<and> s' = s)
     \<and> (\<forall>objective progress st. findObjective allQuests oid = Some (objective, Daily)
          \<and> find (isDaily cid uid dk) (DailyQuestProgress s) = Some progress
          \<and> find (\<lambda>obj. objectiveId obj = oid) (Objectives progress) = Some st \<and> completed st \<and> claimed st
          \<longrightarrow> r = failure ''Objective already claimed'' \<and> s' = s)
     \<and> (\<forall>objective progress st. findObjective allQuests oid = Some (objective, Daily)
          \<and> find (isDaily cid uid dk) (DailyQuestProgress s) = Some progress
          \<and> find (\<lambda>obj. objectiveId obj = oid) (Objectives progress) = Some st \<and> completed st \<and> \<not> claimed st
          \<longrightarrow> success r \<and> error r = None
             \<and> s' = s\<lparr>DailyQuestProgress :=
                        saveDoc (isDaily cid uid dk)
                          (progress\<lparr>Objectives := setClaimed oid (Objectives progress)\<rparr>)
                          (DailyQuestProgress s)\<rparr>
             \<and> find (isDaily cid uid dk) (DailyQuestProgress s') =
                 Some (progress\<lparr>Objectives := setClaimed oid (Objectives progress)\<rparr>)
             \<and> find (\<lambda>obj. objectiveId obj = oid) (setClaimed oid (Objectives progress)) =
                 Some (st\<lparr>claimed := True\<rparr>))
     \<and> (\<forall>objective. findObjective allQuests oid = Some (objective, Weekly)
          \<and> find (isWeekly cid uid wk) (WeeklyQuestProgress s) = None
          \<longrightarrow> r = failure ''Quest progress not found'' \<and> s' = s)
     \<and> (\<forall>objective progress. findObjective allQuests oid = Some (objective, Weekly)
          \<and> find (isWeekly cid uid wk) (WeeklyQuestProgress s) = Some progress
          \<and> find (\<lambda>obj. objectiveId obj = oid) (Objectives progress) = None
          \<longrightarrow> r = failure ''Objective progress not found'' \<and> s' = s)
     \<and> (\<forall>objective progress st. findObjective allQuests oid = Some (objective, Weekly)
          \<and> find (isWeekly cid uid wk) (WeeklyQuestProgress s) = Some progress
          \<and> find (\<lambda>obj. objectiveId obj = oid) (Objectives progress) = Some st \<and> \<not> completed st
          \<longrightarrow> r = failure ''Objective not completed yet'' \<and> s' = s)
     \<and> (\<forall>objective progress st. findObjective allQuests oid = Some (objective, Weekly)
          \<and> find (isWeekly cid uid wk) (WeeklyQuestProgress s) = Some progress
          \<and> find (\<lambda>obj. objectiveId obj = oid) (Objectives progress) = Some st \<and> completed st \<and> claimed st
          \<longrightarrow> r = failure ''Objective already claimed'' \<and> s' = s)
     \<and> (\<forall>objective progress st. findObjective allQuests oid = Some (objective, Weekly)
          \<and> find (isWeekly cid uid wk) (WeeklyQuestProgress s) = Some progress
          \<and> find (\<lambda>obj. objectiveId obj = oid) (Objectives progress) = Some st \<and> completed st \<and> \<not> claimed st
          \<longrightarrow> success r \<and> error r = None
             \<and> s' = s\<lparr>WeeklyQuestProgress :=
                        saveDoc (isWeekly cid uid wk)
                          (progress\<lparr>Objectives := setClaimed oid (Objectives progress)\<rparr>)
                          (WeeklyQuestProgress s)\<rparr>
             \<and> find (isWeekly cid uid wk) (WeeklyQuestProgress s') =
                 Some (progress\<lparr>Objectives := setClaimed oid (Objectives progress)\<rparr>)
             \<and> find (\<lambda>obj. objectiveId obj = oid) (setClaimed oid (Objectives progress)) =
                 Some (st\<lparr>claimed := True\<rparr>))
     \<and> (\<not> success r \<longrightarrow> s' = s)"
proof -
  have unknown: "findObjective allQuests oid = None \<longrightarrow> r = failure ''Objective not found'' \<and> s' = s"
  proof
    assume "findObjective allQuests oid = None"
    from claimObjective_unknown [OF this, of cid uid dk wk s] run
    show "r = failure ''Objective not found'' \<and> s' = s" by simp
  qed
  have dnone: "r = failure ''Quest progress not found'' \<and> s' = s"
    if "findObjective allQuests oid = Some (objective, Daily)"
      and "find (isDaily cid uid dk) (DailyQuestProgress s) = None" for objective
    using run claimObjective_Daily_none [OF that, of wk] by simp
  have wnone: "r = failure ''Quest progress not found'' \<and> s' = s"
    if "findObjective allQuests oid = Some (objective, Weekly)"
      and "find (isWeekly cid uid wk) (WeeklyQuestProgress s) = None" for objective
    using run claimObjective_Weekly_none [OF that, of dk] by simp
  have dfail: "r = failure msg \<and> s' = s"
    if "findObjective allQuests oid = Some (objective, Daily)"
      and "find (isDaily cid uid dk) (DailyQuestProgress s) = Some progress"
      and "claimProgress objective oid progress = (failure msg, progress)" for objective progress msg
    using run claimObjective_Daily [OF that(1,2), of wk] that(3) by simp
  have wfail: "r = failure msg \<and> s' = s"
    if "findObjective allQuests oid = Some (objective, Weekly)"
      and "find (isWeekly cid uid wk) (WeeklyQuestProgress s) = Some progress"
      and "claimProgress objective oid progress = (failure msg, progress)" for objective progress msg
    using run claimObjective_Weekly [OF that(1,2), of dk] that(3) by simp
  have dok: "success r \<and> error r = None
             \<and> s' = s\<lparr>DailyQuestProgress :=
                        saveDoc (isDaily cid uid dk)
                          (progress\<lparr>Objectives := setClaimed oid (Objectives progress)\<rparr>)
                          (DailyQuestProgress s)\<rparr>
             \<and> find (isDaily cid uid dk) (DailyQuestProgress s') =
                 Some (progress\<lparr>Objectives := setClaimed oid (Objectives progress)\<rparr>)
             \<and> find (\<lambda>obj. objectiveId obj = oid) (setClaimed oid (Objectives progress)) =
                 Some (st\<lparr>claimed := True\<rparr>)"
    if f: "findObjective allQuests oid = Some (objective, Daily)"
      and d: "find (isDaily cid uid dk) (DailyQuestProgress s) = Some progress"
      and st: "find (\<lambda>obj. objectiveId obj = oid) (Objectives progress) = Some st"
      and c: "completed st" "\<not> claimed st" for objective progress st
  proof -
    from st c have cp: "claimProgress objective oid progress =
             (\<lparr>success = True, error = None, xp = xpReward objective\<rparr>,
              progress\<lparr>Objectives := setClaimed oid (Objectives progress)\<rparr>)"
      by (simp add: claimProgress_def)
    from run claimObjective_Daily [OF f d, of wk] cp
    have r: "r = \<lparr>success = True, error = None, xp = xpReward objective\<rparr>"
      and s': "s' = s\<lparr>DailyQuestProgress :=
                        saveDoc (isDaily cid uid dk)
                          (progress\<lparr>Objectives := setClaimed oid (Objectives progress)\<rparr>)
                          (DailyQuestProgress s)\<rparr>"
      by simp_all
    from find_sel [OF d]
    have sel: "isDaily cid uid dk (progress\<lparr>Objectives := setClaimed oid (Objectives progress)\<rparr>)"
      by simp
    from find_saveDoc [OF d sel] s'
    have "find (isDaily cid uid dk) (DailyQuestProgress s') =
                 Some (progress\<lparr>Objectives := setClaimed oid (Objectives progress)\<rparr>)"
      by simp
    with r s' find_setClaimed [OF st] show ?thesis by simp
  qed
  have wok: "success r \<and> error r = None
             \<and> s' = s\<lparr>WeeklyQuestProgress :=
                        saveDoc (isWeekly cid uid wk)
                          (progress\<lparr>Objectives := setClaimed oid (Objectives progress)\<rparr>)
                          (WeeklyQuestProgress s)\<rparr>
             \<and> find (isWeekly cid uid wk) (WeeklyQuestProgress s') =
                 Some (progress\<lparr>Objectives := setClaimed oid (Objectives progress)\<rparr>)
             \<and> find (\<lambda>obj. objectiveId obj = oid) (setClaimed oid (Objectives progress)) =
                 Some (st\<lparr>claimed := True\<rparr>)"
    if f: "findObjective allQuests oid = Some (objective, Weekly)"
      and d: "find (isWeekly cid uid wk) (WeeklyQuestProgress s) = Some progress"
      and st: "find (\<lambda>obj. objectiveId obj = oid) (Objectives progress) = Some st"
      and c: "completed st" "\<not> claimed st" for objective progress st
  proof -
    from st c have cp: "claimProgress objective oid progress =
             (\<lparr>success = True, error = None, xp = xpReward objective\<rparr>,
              progress\<lparr>Objectives := setClaimed oid (Objectives progress)\<rparr>)"
      by (simp add: claimProgress_def)
    from run claimObjective_Weekly [OF f d, of dk] cp
    have r: "r = \<lparr>success = True, error = None, xp = xpReward objective\<rparr>"
      and s': "s' = s\<lparr>WeeklyQuestProgress :=
                        saveDoc (isWeekly cid uid wk)
                          (progress\<lparr>Objectives := setClaimed oid (Objectives progress)\<rparr>)
                          (WeeklyQuestProgress s)\<rparr>"
      by simp_all
    from find_sel [OF d]
    have sel: "isWeekly cid uid wk (progress\<lparr>Objectives := setClaimed oid (Objectives progress)\<rparr>)"
      by simp
    from find_saveDoc [OF d sel] s'
    have "find (isWeekly cid uid wk) (WeeklyQuestProgress s') =
                 Some (progress\<lparr>Objectives := setClaimed oid (Objectives progress)\<rparr>)"
      by simp
    with r s' find_setClaimed [OF st] show ?thesis by simp
  qed
  have cp_none: "claimProgress objective oid progress = (failure ''Objective progress not found'', progress)"
    if "find (\<lambda>obj. objectiveId obj = oid) (Objectives progress) = None"
    for objective and progress :: "'a quest_progress_scheme"
    using that by (simp add: claimProgress_def)
  have cp_open: "claimProgress objective oid progress = (failure ''Objective not completed yet'', progress)"
    if "find (\<lambda>obj. objectiveId obj = oid) (Objectives progress) = Some st" "\<not> completed st"
    for objective st and progress :: "'a quest_progress_scheme"
    using that by (simp add: claimProgress_def)
  have cp_done: "claimProgress objective oid progress = (failure ''Objective already claimed'', progress)"
    if "find (\<lambda>obj. objectiveId obj = oid) (Objectives progress) = Some st" "completed st" "claimed st"
    for objective st and progress :: "'a quest_progress_scheme"
    using that by (simp add: claimProgress_def)
  have unchanged: "\<not> success r \<longrightarrow> s' = s"
  proof
    assume ns: "\<not> success r"
    show "s' = s"
    proof (cases "findObjective allQuests oid")
      case None
      with unknown show ?thesis by simp
    next
      case (Some a)
      obtain objective qt where a: "a = (objective, qt)" by (cases a)
      show ?thesis
      proof (cases qt)
        case Daily
        show ?thesis
        proof (cases "find (isDaily cid uid dk) (DailyQuestProgress s)")
          case None
          with dnone Some a Daily show ?thesis by simp
        next
          case (Some progress)
          from run claimObjective_Daily [OF \<open>findObjective allQuests oid = Some a\<close> [unfolded a Daily] Some, of wk] ns
          show ?thesis by (simp split: if_splits)
        qed
      next
        case Weekly
        show ?thesis
        proof (cases "find (isWeekly cid uid wk) (WeeklyQuestProgress s)")
          case None
          with wnone Some a Weekly show ?thesis by simp
        next
          case (Some progress)
          from run claimObjective_Weekly [OF \<open>findObjective allQuests oid = Some a\<close> [unfolded a Weekly] Some, of dk] ns
          show ?thesis by (simp split: if_splits)
        qed
      qed
    qed
  qed
  have d1: "r = failure ''Objective progress not found'' \<and> s' = s"
    if f: "findObjective allQuests oid = Some (objective, Daily)"
      and d: "find (isDaily cid uid dk) (DailyQuestProgress s) = Some progress"
      and n: "find (\<lambda>obj. objectiveId obj = oid) (Objectives progress) = None" for objective progress
    using dfail [OF f d cp_none [OF n]] .
  have d2: "r = failure ''Objective not completed yet'' \<and> s' = s"
    if f: "findObjective allQuests oid = Some (objective, Daily)"
      and d: "find (isDaily cid uid dk) (DailyQuestProgress s) = Some progress"
      and st: "find (\<lambda>obj. objectiveId obj = oid) (Objectives progress) = Some st"
      and c: "\<not> completed st" for objective progress st
    using dfail [OF f d cp_open [OF st c]] .
  have d3: "r = failure ''Objective already claimed'' \<and> s' = s"
    if f: "findObjective allQuests oid = Some (objective, Daily)"
      and d: "find (isDaily cid uid dk) (DailyQuestProgress s) = Some progress"
      and st: "find (\<lambda>obj. objectiveId obj = oid) (Objectives progress) = Some st"
      and c: "completed st" "claimed st" for objective progress st
    using dfail [OF f d cp_done [OF st c]] .
  have w1: "r = failure ''Objective progress not found'' \<and> s' = s"
    if f: "findObjective allQuests oid = Some (objective, Weekly)"
      and d: "find (isWeekly cid uid wk) (WeeklyQuestProgress s) = Some progress"
      and n: "find (\<lambda>obj. objectiveId obj = oid) (Objectives progress) = None" for objective progress
    using wfail [OF f d cp_none [OF n]] .
  have w2: "r = failure ''Objective not completed yet'' \<and> s' = s"
    if f: "findObjective allQuests oid = Some (objective, Weekly)"
      and d: "find (isWeekly cid uid wk) (WeeklyQuestProgress s) = Some progress"
      and st: "find (\<lambda>obj. objectiveId obj = oid) (Objectives progress) = Some st"
      and c: "\<not> completed st" for objective progress st
    using wfail [OF f d cp_open [OF st c]] .
  have w3: "r = failure ''Objective already claimed'' \<and> s' = s"
    if f: "findObjective allQuests oid = Some (objective, Weekly)"
      and d: "find (isWeekly cid uid wk) (WeeklyQuestProgress s) = Some progress"
      and st: "find (\<lambda>obj. objectiveId obj = oid) (Objectives progress) = Some st"
      and c: "completed st" "claimed st" for objective progress st
    using wfail [OF f d cp_done [OF st c]] .
  have c_dnone: "\<forall>objective. findObjective allQuests oid = Some (objective, Daily)
       \<and> find (isDaily cid uid dk) (DailyQuestProgress s) = None
          \<longrightarrow> r = failure ''Quest progress not found'' \<and> s' = s"
    using dnone by blast
  have c_d1: "\<forall>objective progress. findObjective allQuests oid = Some (objective, Daily)
       \<and> find (isDaily cid uid dk) (DailyQuestProgress s) = Some progress
          \<and> find (\<lambda>obj. objectiveId obj = oid) (Objectives progress) = None
          \<longrightarrow> r = failure ''Objective progress not found'' \<and> s' = s"
    using d1 by blast
  have c_d2: "\<forall>objective progress st. findObjective allQuests oid = Some (objective, Daily)
       \<and> find (isDaily cid uid dk) (DailyQuestProgress s) = Some progress
          \<and> find (\<lambda>obj. objectiveId obj = oid) (Objectives progress) = Some st \<and> \<not> completed st
          \<longrightarrow> r = failure ''Objective not completed yet'' \<and> s' = s"
    using d2 by blast
  have c_d3: "\<forall>objective progress st. findObjective allQuests oid = Some (objective, Daily)
       \<and> find (isDaily cid uid dk) (DailyQuestProgress s) = Some progress
          \<and> find (\<lambda>obj. objectiveId obj = oid) (Objectives progress) = Some st \<and> completed st \<and> claimed st
          \<longrightarrow> r = failure ''Objective already claimed'' \<and> s' = s"
    using d3 by blast
  have c_dok: "\<forall>objective progress st. findObjective allQuests oid = Some (objective, Daily)
       \<and> find (isDaily cid uid dk) (DailyQuestProgress s) = Some progress
          \<and> find (\<lambda>obj. objectiveId obj = oid) (Objectives progress) = Some st \<and> completed st \<and> \<not> claimed st
          \<longrightarrow> success r \<and> error r = None
             \<and> s' = s\<lparr>DailyQuestProgress :=
                        saveDoc (isDaily cid uid dk)
                          (progress\<lparr>Objectives := setClaimed oid (Objectives progress)\<rparr>)
                          (DailyQuestProgress s)\<rparr>
             \<and> find (isDaily cid uid dk) (DailyQuestProgress s') =
                 Some (progress\<lparr>Objectives := setClaimed oid (Objectives progress)\<rparr>)
             \<and> find (\<lambda>obj. objectiveId obj = oid) (setClaimed oid (Objectives progress)) =
                 Some (st\<lparr>claimed := True\<rparr>)"
    using dok by blast
  have c_wnone: "\<forall>objective. findObjective allQuests oid = Some (objective, Weekly)
       \<and> find (isWeekly cid uid wk) (WeeklyQuestProgress s) = None
          \<longrightarrow> r = failure ''Quest progress not found'' \<and> s' = s"
    using wnone by blast
  have c_w1: "\<forall>objective progress. findObjective allQuests oid = Some (objective, Weekly)
       \<and> find (isWeekly cid uid wk) (WeeklyQuestProgress s) = Some progress
          \<and> find (\<lambda>obj. objectiveId obj = oid) (Objectives progress) = None
          \<longrightarrow> r = failure ''Objective progress not found'' \<and> s' = s"
    using w1 by blast
  have c_w2: "\<forall>objective progress st. findObjective allQuests oid = Some (objective, Weekly)
       \<and> find (isWeekly cid uid wk) (WeeklyQuestProgress s) = Some progress
          \<and> find (\<lambda>obj. objectiveId obj = oid) (Objectives progress) = Some st \<and> \<not> completed st
          \<longrightarrow> r = failure ''Objective not completed yet'' \<and> s' = s"
    using w2 by blast
  have c_w3: "\<forall>objective progress st. findObjective allQuests oid = Some (objective, Weekly)
       \<and> find (isWeekly cid uid wk) (WeeklyQuestProgress s) = Some progress
          \<and> find (\<lambda>obj. objectiveId obj = oid) (Objectives progress) = Some st \<and> completed st \<and> claimed st
          \<longrightarrow> r = failure ''Objective already claimed'' \<and> s' = s"
    using w3 by blast
  have c_wok: "\<forall>objective progress st. findObjective allQuests oid = Some (objective, Weekly)
       \<and> find (isWeekly cid uid wk) (WeeklyQuestProgress s) = Some progress
          \<and> find (\<lambda>obj. objectiveId obj = oid) (Objectives progress) = Some st \<and> completed st \<and> \<not> claimed st
          \<longrightarrow> success r \<and> error r = None
             \<and> s' = s\<lparr>WeeklyQuestProgress :=
                        saveDoc (isWeekly cid uid wk)
                          (progress\<lparr>Objectives := setClaimed oid (Objectives progress)\<rparr>)
                          (WeeklyQuestProgress s)\<rparr>
             \<and> find (isWeekly cid uid wk) (WeeklyQuestProgress s') =
                 Some (progress\<lparr>Objectives := setClaimed oid (Objectives progress)\<rparr>)
             \<and> find (\<lambda>obj. objectiveId obj = oid) (setClaimed oid (Objectives progress)) =
                 Some (st\<lparr>claimed := True\<rparr>)"
    using wok by blast
  from unknown c_dnone c_d1 c_d2 c_d3 c_dok c_wnone c_w1 c_w2 c_w3 c_wok unchanged show ?thesis
    by (intro conjI)
qed

theorem claimObjective_outcomes_witness:
  "findObjective [defaultDailyQuest, defaultWeeklyQuest] ''daily_success1'' = Some (daily_success1, Daily)
   \<and> find (isDaily ''acme'' ''u1'' ''2024-12-31'') (DailyQuestProgress earned_store) =
       Some (hd (DailyQuestProgress earned_store))
   \<and> find (\<lambda>obj. objectiveId obj = ''daily_success1'') (Objectives (hd (DailyQuestProgress earned_store))) =
       Some \<lparr>messageCount = 0, successMessageCount = 1, xpReward = 10, order = 1,
             objectiveId = ''daily_success1'', completed = True, claimed = False\<rparr>
   \<and> success (fst (claimObjective True [defaultDailyQuest, defaultWeeklyQuest] ''acme'' ''u1''
                     ''2024-12-31'' ''2025-W01'' ''daily_success1'' earned_store))
   \<and> find (\<lambda>obj. objectiveId obj = ''daily_success1'')
         (setClaimed ''daily_success1'' (Objectives (hd (DailyQuestProgress earned_store)))) =
       Some \<lparr>messageCount = 0, successMessageCount = 1, xpReward = 10, order = 1,
             objectiveId = ''daily_success1'', completed = True, claimed = True\<rparr>"
proof -
  let ?st = "\<lparr>messageCount = 0, successMessageCount = 1, xpReward = 10, order = 1,
             objectiveId = ''daily_success1'', completed = True, claimed = False\<rparr>"
  have run: "claimObjective True [defaultDailyQuest, defaultWeeklyQuest] ''acme'' ''u1''
                     ''2024-12-31'' ''2025-W01'' ''daily_success1'' earned_store =
       (fst (claimObjective True [defaultDailyQuest, defaultWeeklyQuest] ''acme'' ''u1''
                     ''2024-12-31'' ''2025-W01'' ''daily_success1'' earned_store),
        snd (claimObjective True [defaultDailyQuest, defaultWeeklyQuest] ''acme'' ''u1''
                     ''2024-12-31'' ''2025-W01'' ''daily_success1'' earned_store))"
    by simp
  have f: "findObjective [defaultDailyQuest, defaultWeeklyQuest] ''daily_success1'' = Some (daily_success1, Daily)"
    by code_simp
  have d: "find (isDaily ''acme'' ''u1'' ''2024-12-31'') (DailyQuestProgress earned_store) =
       Some (hd (DailyQuestProgress earned_store))"
    by code_simp
  have st: "find (\<lambda>obj. objectiveId obj = ''daily_success1'') (Objectives (hd (DailyQuestProgress earned_store))) =
       Some ?st"
    by code_simp
  from claimObjective_outcomes [OF run]
  have "\<forall>objective progress st.
          findObjective [defaultDailyQuest, defaultWeeklyQuest] ''daily_success1'' = Some (objective, Daily)
         
               \<and> find (isDaily ''acme'' ''u1'' ''2024-12-31'') (DailyQuestProgress earned_store) = Some progress
          \<and> find (\<lambda>obj. objectiveId obj = ''daily_success1'') (Objectives progress) = Some st
          \<and> completed st \<and> \<not> claimed st
          \<longrightarrow> success (fst (claimObjective True [defaultDailyQuest, defaultWeeklyQuest] ''acme'' ''u1''
                     ''2024-12-31'' ''2025-W01'' ''daily_success1'' earned_store))
             \<and> find (\<lambda>obj. objectiveId obj = ''daily_success1'') (setClaimed ''daily_success1'' (Objectives progress)) =
                 Some (st\<lparr>claimed := True\<rparr>)"
    by (elim conjE) blast
  from this [rule_format, of daily_success1 "hd (DailyQuestProgress earned_store)" ?st] f d st
  show ?thesis by simp
qed

section \<open>Claims that overlap\<close>












section \<open>Claimed states are completed\<close>

lemma seedObjectives_unclaimed: "st \<in> set (seedObjectives q) \<Longrightarrow> \<not> claimed st \<and> \<not> completed st"
  by (cases q) (auto simp: seedObjectives_def)

lemma claimsEarned_new:
  "claimsEarned (newDaily c u k q)" "claimsEarned (newWeekly c u k q)"
  using seedObjectives_unclaimed by (auto simp: claimsEarned_def newDaily_def newWeekly_def)

lemma claimsEarned_incrementTotals:
  "claimsEarned (incrementTotals b p) = claimsEarned p"
  by (simp add: claimsEarned_def incrementTotals_def)

lemma claimsEarned_check:
  "claimsEarned p \<Longrightarrow> claimsEarned (checkObjectiveCompletion p)"
  by (auto simp: claimsEarned_def Objectives_checkObjectiveCompletion)

lemma claimsEarned_seen:
  "claimsEarned (p\<lparr>QuestSeen := b\<rparr>) = claimsEarned p"
  by (simp add: claimsEarned_def)

lemma setClaimed_length [simp]: "length (setClaimed oid objs) = length objs"
  by (induction objs) simp_all

lemma setClaimed_nth:
  "i < length objs \<Longrightarrow>
     setClaimed oid objs ! i = objs ! i \<or>
     (find (\<lambda>obj. objectiveId obj = oid) objs = Some (objs ! i) \<and>
      setClaimed oid objs ! i = (objs ! i)\<lparr>claimed := True\<rparr>)"
proof (induction objs arbitrary: i)
  case Nil
  then show ?case by simp
next
  case (Cons obj rest)
  show ?case
  proof (cases i)
    case 0
    then show ?thesis by simp
  next
    case (Suc k)
    with Cons.prems have "k < length rest" by simp
    from Cons.IH [OF this] Suc show ?thesis by auto
  qed
qed

lemma Objectives_claimProgress:
  "Objectives (snd (claimProgress objective oid p)) =
     (if \<exists>st. find (\<lambda>obj. objectiveId obj = oid) (Objectives p) = Some st \<and> completed st \<and> \<not> claimed st
      then setClaimed oid (Objectives p) else Objectives p)"
  by (auto simp: claimProgress_def split: option.splits)

lemma claimProgress_step:
  assumes "i < length (Objectives p)"
  shows "i < length (Objectives (snd (claimProgress objective oid p)))
     \<and> completed (Objectives (snd (claimProgress objective oid p)) ! i) = completed (Objectives p ! i)
     \<and> (claimed (Objectives p ! i) \<longrightarrow> claimed (Objectives (snd (claimProgress objective oid p)) ! i))
     \<and> (claimed (Objectives (snd (claimProgress objective oid p)) ! i) \<longrightarrow>
          claimed (Objectives p ! i) \<or> completed (Objectives p ! i))"
proof (cases "\<exists>st. find (\<lambda>obj. objectiveId obj = oid) (Objectives p) = Some st \<and> completed st \<and> \<not> claimed st")
  case False
  then have eq: "Objectives (snd (claimProgress objective oid p)) = Objectives p"
    unfolding Objectives_claimProgress by (rule if_not_P)
  with assms show ?thesis by simp
next
  case True
  then have eq: "Objectives (snd (claimProgress objective oid p)) = setClaimed oid (Objectives p)"
    unfolding Objectives_claimProgress by (rule if_P)
  from setClaimed_nth [OF assms, of oid] True assms show ?thesis
    unfolding eq by auto
qed

lemma claimsEarned_claimProgress:
  assumes "claimsEarned p"
  shows "claimsEarned (snd (claimProgress objective oid p))"
  unfolding claimsEarned_def
proof (intro ballI impI)
  fix st'
  assume mem: "st' \<in> set (Objectives (snd (claimProgress objective oid p)))" and cl: "claimed st'"
  from mem obtain i where i: "i < length (Objectives (snd (claimProgress objective oid p)))"
    and st': "st' = Objectives (snd (claimProgress objective oid p)) ! i"
    by (auto simp: in_set_conv_nth)
  from i have i': "i < length (Objectives p)"
    by (simp add: Objectives_claimProgress split: if_splits)
  then have "Objectives p ! i \<in> set (Objectives p)" by simp
  with assms have "claimed (Objectives p ! i) \<longrightarrow> completed (Objectives p ! i)"
    by (simp add: claimsEarned_def)
  with claimProgress_step [OF i', of objective oid] cl st' show "completed st'"
    by auto
qed

lemma claimsEarned_migrateDoc:
  assumes "claimsEarned p"
  shows "claimsEarned (migrateDoc q cid p)"
proof (cases q)
  case None
  with assms show ?thesis by (simp add: migrateDoc_None)
next
  case (Some quest)
  show ?thesis
  proof (cases "companyId p = cid")
    case False
    with assms show ?thesis by (simp add: migrateDoc_eq)
  next
    case True
    show ?thesis
      unfolding claimsEarned_def Some
    proof (intro ballI impI)
      fix st
      assume mem: "st \<in> set (Objectives (migrateDoc (Some quest) cid p))" and cl: "claimed st"
      from migrateDoc_state [OF mem True] obtain p0 where
        origin: "p0 \<in> set (Objectives p) \<or>
              (\<exists>c\<in>set (objectives quest). id_obj c \<notin> objectiveId ` set (Objectives p) \<and>
                 p0 = \<lparr>messageCount = messageCount c, successMessageCount = successMessageCount c,
                      xpReward = xpReward c, order = order c, objectiveId = id_obj c,
                      completed = False, claimed = False\<rparr>)"
        and same: "completed st = completed p0" "claimed st = claimed p0"
        by blast
      from origin cl same have "p0 \<in> set (Objectives p)" by auto
      with assms cl same show "completed st" by (simp add: claimsEarned_def)
    qed
  qed
qed

lemma set_saveDoc: "set (saveDoc sel d xs) \<subseteq> insert d (set xs)"
  by (induction xs) auto

lemma find_mem: "find sel xs = Some p \<Longrightarrow> p \<in> set xs"
  by (auto simp: find_Some_iff)


lemma all_saveDoc: "\<forall>x\<in>set xs. P x \<Longrightarrow> P d \<Longrightarrow> \<forall>x\<in>set (saveDoc sel d xs). P x"
  using set_saveDoc [of sel d xs] by auto

lemma updateDailyProgress_earned:
  assumes "\<forall>p\<in>set coll. claimsEarned p"
  shows "\<forall>p\<in>set (snd (updateDailyProgress cid dailyQuests uid dk b coll)). claimsEarned p"
proof (cases "find (isDaily cid uid dk) coll")
  case None
  let ?n = "newDaily cid uid dk (first dailyQuests)"
  let ?p = "checkObjectiveCompletionDaily (incrementTotals b ?n)"
  from None have eq: "snd (updateDailyProgress cid dailyQuests uid dk b coll) =
      saveDoc (isDaily cid uid dk) ?p (coll @ [?n])"
    by (simp add: updateDailyProgress_def Let_def)
  have "claimsEarned ?p"
    by (simp add: checkObjectiveCompletionDaily_def claimsEarned_check claimsEarned_incrementTotals
        claimsEarned_new)
  moreover from assms have "\<forall>x\<in>set (coll @ [?n]). claimsEarned x"
    by (simp add: claimsEarned_new)
  ultimately show ?thesis unfolding eq by (intro all_saveDoc)
next
  case (Some p0)
  let ?p = "checkObjectiveCompletionDaily (incrementTotals b p0)"
  from Some have eq: "snd (updateDailyProgress cid dailyQuests uid dk b coll) =
      saveDoc (isDaily cid uid dk) ?p coll"
    by (simp add: updateDailyProgress_def Let_def)
  from find_mem [OF Some] assms have "claimsEarned p0" by simp
  then have "claimsEarned ?p"
    by (simp add: checkObjectiveCompletionDaily_def claimsEarned_check claimsEarned_incrementTotals)
  with assms show ?thesis unfolding eq by (intro all_saveDoc)
qed

lemma updateWeeklyProgress_earned:
  assumes "\<forall>p\<in>set coll. claimsEarned p"
  shows "\<forall>p\<in>set (snd (updateWeeklyProgress cid weeklyQuests uid wk b coll)). claimsEarned p"
proof (cases "find (isWeekly cid uid wk) coll")
  case None
  let ?n = "newWeekly cid uid wk (first weeklyQuests)"
  let ?p = "checkObjectiveCompletionWeekly (incrementTotals b ?n)"
  from None have eq: "snd (updateWeeklyProgress cid weeklyQuests uid wk b coll) =
      saveDoc (isWeekly cid uid wk) ?p (coll @ [?n])"
    by (simp add: updateWeeklyProgress_def Let_def)
  have "claimsEarned ?p"
    by (simp add: checkObjectiveCompletionWeekly_def claimsEarned_check claimsEarned_incrementTotals
        claimsEarned_new)
  moreover from assms have "\<forall>x\<in>set (coll @ [?n]). claimsEarned x"
    by (simp add: claimsEarned_new)
  ultimately show ?thesis unfolding eq by (intro all_saveDoc)
next
  case (Some p0)
  let ?p = "checkObjectiveCompletionWeekly (incrementTotals b p0)"
  from Some have eq: "snd (updateWeeklyProgress cid weeklyQuests uid wk b coll) =
      saveDoc (isWeekly cid uid wk) ?p coll"
    by (simp add: updateWeeklyProgress_def Let_def)
  from find_mem [OF Some] assms have "claimsEarned p0" by simp
  then have "claimsEarned ?p"
    by (simp add: checkObjectiveCompletionWeekly_def claimsEarned_check claimsEarned_incrementTotals)
  with assms show ?thesis unfolding eq by (intro all_saveDoc)
qed

lemma updateProgress_earned:
  assumes "storeEarned s"
  shows "storeEarned (snd (updateProgress conn dailyQuests weeklyQuests cid uid dk wk b s))"
proof (cases conn)
  case False
  with assms show ?thesis by (simp add: updateProgress_def)
next
  case True
  then have "snd (updateProgress conn dailyQuests weeklyQuests cid uid dk wk b s) =
     \<lparr>DailyQuestProgress = snd (updateDailyProgress cid dailyQuests uid dk b (DailyQuestProgress s)),
      WeeklyQuestProgress = snd (updateWeeklyProgress cid weeklyQuests uid wk b (WeeklyQuestProgress s))\<rparr>"
    by (simp add: updateProgress_def split_def Let_def)
  with assms updateDailyProgress_earned [of "DailyQuestProgress s" cid dailyQuests uid dk b]
    updateWeeklyProgress_earned [of "WeeklyQuestProgress s" cid weeklyQuests uid wk b]
  show ?thesis by (simp add: storeEarned_def)
qed

lemma claimObjective_earned:
  assumes "storeEarned s"
  shows "storeEarned (snd (claimObjective conn allQuests cid uid dk wk oid s))"
proof (cases conn)
  case False
  with assms show ?thesis by (simp add: claimObjective_def)
next
  case True
  show ?thesis
  proof (cases "findObjective allQuests oid")
    case None
    with assms True show ?thesis by (simp add: claimObjective_unknown)
  next
    case (Some a)
    obtain objective qt where a: "a = (objective, qt)" by (cases a)
    show ?thesis
    proof (cases qt)
      case Daily
      note f = Some [unfolded a Daily]
      show ?thesis
      proof (cases "find (isDaily cid uid dk) (DailyQuestProgress s)")
        case None
        from claimObjective_Daily_none [OF f None, of wk] assms True show ?thesis by simp
      next
        case (Some p0)
        from find_mem [OF Some] assms have "claimsEarned p0" by (simp add: storeEarned_def)
        then have "claimsEarned (snd (claimProgress objective oid p0))"
          by (rule claimsEarned_claimProgress)
        with assms have "\<forall>x\<in>set (saveDoc (isDaily cid uid dk) (snd (claimProgress objective oid p0))
                                  (DailyQuestProgress s)). claimsEarned x"
          by (intro all_saveDoc) (simp_all add: storeEarned_def)
        with claimObjective_Daily [OF f Some, of wk] assms True show ?thesis
          by (simp add: storeEarned_def)
      qed
    next
      case Weekly
      note f = Some [unfolded a Weekly]
      show ?thesis
      proof (cases "find (isWeekly cid uid wk) (WeeklyQuestProgress s)")
        case None
        from claimObjective_Weekly_none [OF f None, of dk] assms True show ?thesis by simp
      next
        case (Some p0)
        from find_mem [OF Some] assms have "claimsEarned p0" by (simp add: storeEarned_def)
        then have "claimsEarned (snd (claimProgress objective oid p0))"
          by (rule claimsEarned_claimProgress)
        with assms have "\<forall>x\<in>set (saveDoc (isWeekly cid uid wk) (snd (claimProgress objective oid p0))
                                  (WeeklyQuestProgress s)). claimsEarned x"
          by (intro all_saveDoc) (simp_all add: storeEarned_def)
        with claimObjective_Weekly [OF f Some, of dk] assms True show ?thesis
          by (simp add: storeEarned_def)
      qed
    qed
  qed
qed

lemma markQuestSeen_earned:
  assumes "storeEarned s"
  shows "storeEarned (snd (markQuestSeen conn cid uid dk wk qt s))"
proof (cases conn)
  case False
  with assms show ?thesis by (simp add: markQuestSeen_def)
next
  case True
  show ?thesis
  proof (cases qt)
    case Daily
    show ?thesis
    proof (cases "find (isDaily cid uid dk) (DailyQuestProgress s)")
      case None
      with assms True Daily show ?thesis by (simp add: markQuestSeen_def)
    next
      case (Some doc)
      from find_mem [OF Some] assms have "claimsEarned (doc\<lparr>QuestSeen := True\<rparr>)"
        by (simp add: storeEarned_def claimsEarned_seen)
      with assms have "\<forall>x\<in>set (saveDoc (isDaily cid uid dk) (doc\<lparr>QuestSeen := True\<rparr>)
                                  (DailyQuestProgress s)). claimsEarned x"
        by (intro all_saveDoc) (simp_all add: storeEarned_def)
      with Some assms True Daily show ?thesis
        by (simp add: markQuestSeen_def storeEarned_def)
    qed
  next
    case Weekly
    show ?thesis
    proof (cases "find (isWeekly cid uid wk) (WeeklyQuestProgress s)")
      case None
      with assms True Weekly show ?thesis by (simp add: markQuestSeen_def)
    next
      case (Some doc)
      from find_mem [OF Some] assms have "claimsEarned (doc\<lparr>QuestSeen := True\<rparr>)"
        by (simp add: storeEarned_def claimsEarned_seen)
      with assms have "\<forall>x\<in>set (saveDoc (isWeekly cid uid wk) (doc\<lparr>QuestSeen := True\<rparr>)
                                  (WeeklyQuestProgress s)). claimsEarned x"
        by (intro all_saveDoc) (simp_all add: storeEarned_def)
      with Some assms True Weekly show ?thesis
        by (simp add: markQuestSeen_def storeEarned_def)
    qed
  qed
qed

lemma migrateQuestProgress_earned:
  assumes "storeEarned s"
  shows "storeEarned (migrateQuestProgress conn dailyQuests weeklyQuests cid s)"
proof (cases conn)
  case False
  with assms show ?thesis by (simp add: migrateQuestProgress_def)
next
  case True
  with assms migrateQuestProgress_maps [of dailyQuests weeklyQuests cid s] show ?thesis
    by (simp add: storeEarned_def claimsEarned_migrateDoc)
qed

lemma applyOp_earned: "storeEarned s \<Longrightarrow> storeEarned (applyOp cid s op)"
  by (cases op)
    (simp_all add: updateProgress_earned claimObjective_earned markQuestSeen_earned
      migrateQuestProgress_earned)

lemma foldl_applyOp_earned: "storeEarned s \<Longrightarrow> storeEarned (foldl (applyOp cid) s ops)"
  by (induction ops arbitrary: s) (simp_all add: applyOp_earned)

lemma freshStore_earned: "storeEarned (freshStore ds ws)"
  by (auto simp: storeEarned_def freshStore_def claimsEarned_new)


lemma check_step:
  assumes "i < length (Objectives p)"
  shows "claimed (Objectives (checkObjectiveCompletion (incrementTotals b p)) ! i) = claimed (Objectives p ! i)
     \<and> (completed (Objectives p ! i) \<longrightarrow>
          completed (Objectives (checkObjectiveCompletion (incrementTotals b p)) ! i))"
  using assms by (simp add: Objectives_checkObjectiveCompletion incrementTotals_def)

lemma migrateDoc_flags:
  assumes "i < length (Objectives p)"
  shows "completed (Objectives (migrateDoc q cid p) ! i) = completed (Objectives p ! i)
     \<and> claimed (Objectives (migrateDoc q cid p) ! i) = claimed (Objectives p ! i)"
proof (cases q)
  case None
  then show ?thesis by (simp add: migrateDoc_None)
next
  case (Some quest)
  show ?thesis
  proof (cases "companyId p = cid")
    case False
    then show ?thesis by (simp add: migrateDoc_eq)
  next
    case True
    with assms Some show ?thesis
      by (simp add: Objectives_migrateDoc nth_append split: option.splits
          del: set_map map_append set_append map_map)
  qed
qed

text \<open>
  C7. Start from any store of freshly created documents and apply any sequence of the
  operations that write: recording an event, claiming, marking a quest as seen, migrating,
  each with any arguments and any catalog. In every document of the resulting store every
  claimed objective state is completed. The steps on a document: the event (counter update
  and completion check) keeps \<open>claimed\<close> and never clears \<open>completed\<close>; the claim keeps
  \<open>completed\<close>, never clears \<open>claimed\<close>, and sets \<open>claimed\<close> only on a completed state; migration
  keeps both flags of every state the document had; marking as seen does not touch the
  states. No step shortens the state list.
\<close>

theorem claimed_implies_completed:
  fixes p :: "'a quest_progress_scheme"
  shows
    "(\<forall>d \<in> set (DailyQuestProgress (foldl (applyOp cid) (freshStore ds ws) ops)).
        \<forall>st \<in> set (Objectives d). claimed st \<longrightarrow> completed st)
     \<and> (\<forall>w \<in> set (WeeklyQuestProgress (foldl (applyOp cid) (freshStore ds ws) ops)).
        \<forall>st \<in> set (Objectives w). claimed st \<longrightarrow> completed st)
     \<and> (\<forall>i < length (Objectives p).
          claimed (Objectives (checkObjectiveCompletion (incrementTotals b p)) ! i) =
            claimed (Objectives p ! i)
          \<and> (completed (Objectives p ! i) \<longrightarrow>
               completed (Objectives (checkObjectiveCompletion (incrementTotals b p)) ! i)))
     \<and> (\<forall>i < length (Objectives p).
          completed (Objectives (snd (claimProgress objective oid p)) ! i) = completed (Objectives p ! i)
          \<and> (claimed (Objectives p ! i) \<longrightarrow> claimed (Objectives (snd (claimProgress objective oid p)) ! i))
          \<and> (claimed (Objectives (snd (claimProgress objective oid p)) ! i) \<and> \<not> claimed (Objectives p ! i)
               \<longrightarrow> completed (Objectives p ! i)))
     \<and> (\<forall>i < length (Objectives p).
          completed (Objectives (migrateDoc q c p) ! i) = completed (Objectives p ! i)
          \<and> claimed (Objectives (migrateDoc q c p) ! i) = claimed (Objectives p ! i))
     \<and> Objectives (p\<lparr>QuestSeen := True\<rparr>) = Objectives p
     \<and> length (Objectives (checkObjectiveCompletion (incrementTotals b p))) = length (Objectives p)
     \<and> length (Objectives (snd (claimProgress objective oid p))) = length (Objectives p)
     \<and> length (Objectives p) \<le> length (Objectives (migrateDoc q c p))"
proof -
  have "storeEarned (foldl (applyOp cid) (freshStore ds ws) ops)"
    by (intro foldl_applyOp_earned freshStore_earned)
  then have a: "\<forall>d \<in> set (DailyQuestProgress (foldl (applyOp cid) (freshStore ds ws) ops)).
        \<forall>st \<in> set (Objectives d). claimed st \<longrightarrow> completed st"
    and b: "\<forall>w \<in> set (WeeklyQuestProgress (foldl (applyOp cid) (freshStore ds ws) ops)).
        \<forall>st \<in> set (Objectives w). claimed st \<longrightarrow> completed st"
    by (simp_all add: storeEarned_def claimsEarned_def)
  have c: "\<forall>i < length (Objectives p).
          claimed (Objectives (checkObjectiveCompletion (incrementTotals b p)) ! i) =
            claimed (Objectives p ! i)
          \<and> (completed (Objectives p ! i) \<longrightarrow>
               completed (Objectives (checkObjectiveCompletion (incrementTotals b p)) ! i))"
    using check_step by blast
  have d: "\<forall>i < length (Objectives p).
          completed (Objectives (snd (claimProgress objective oid p)) ! i) = completed (Objectives p ! i)
          \<and> (claimed (Objectives p ! i) \<longrightarrow> claimed (Objectives (snd (claimProgress objective oid p)) ! i))
          \<and> (claimed (Objectives (snd (claimProgress objective oid p)) ! i) \<and> \<not> claimed (Objectives p ! i)
               \<longrightarrow> completed (Objectives p ! i))"
    using claimProgress_step [of _ p objective oid] by blast
  have e: "\<forall>i < length (Objectives p).
          completed (Objectives (migrateDoc q c p) ! i) = completed (Objectives p ! i)
          \<and> claimed (Objectives (migrateDoc q c p) ! i) = claimed (Objectives p ! i)"
    using migrateDoc_flags by blast
  have f: "Objectives (p\<lparr>QuestSeen := True\<rparr>) = Objectives p" by simp
  have g: "length (Objectives (checkObjectiveCompletion (incrementTotals b p))) = length (Objectives p)"
    by (simp add: Objectives_checkObjectiveCompletion incrementTotals_def)
  have h: "length (Objectives (snd (claimProgress objective oid p))) = length (Objectives p)"
    by (simp add: Objectives_claimProgress)
  have k: "length (Objectives p) \<le> length (Objectives (migrateDoc q c p))"
  proof (cases q)
    case None
    then show ?thesis by (simp add: migrateDoc_None)
  next
    case (Some quest)
    then show ?thesis by (simp add: Objectives_migrateDoc del: set_map)
  qed
  from a b c d e f g h k show ?thesis by (intro conjI)
qed

theorem claimed_implies_completed_witness:
  "claimed (hd (Objectives (hd (DailyQuestProgress (foldl (applyOp ''acme'') (freshStore [] []) sample_ops)))))
   \<and> completed (hd (Objectives (hd (DailyQuestProgress (foldl (applyOp ''acme'') (freshStore [] []) sample_ops)))))"
proof -
  let ?S = "foldl (applyOp ''acme'') (freshStore [] []) sample_ops"
  have c: "claimed (hd (Objectives (hd (DailyQuestProgress ?S))))"
    by code_simp
  have m1: "hd (DailyQuestProgress ?S) \<in> set (DailyQuestProgress ?S)"
    by code_simp
  have m2: "hd (Objectives (hd (DailyQuestProgress ?S))) \<in> set (Objectives (hd (DailyQuestProgress ?S)))"
    by code_simp
  from claimed_implies_completed [of "''acme''" "[]" "[]" sample_ops]
  have "\<forall>d \<in> set (DailyQuestProgress ?S). \<forall>st \<in> set (Objectives d). claimed st \<longrightarrow> completed st"
    by (rule conjunct1)
  with m1 m2 c show ?thesis by blast
qed

section \<open>The counts of the read-model\<close>

lemma foldl_plus_sum_list:
  "foldl (\<lambda>sum ob. sum + f ob) a xs = a + sum_list (map f xs)" for a :: nat
  by (induction xs arbitrary: a) simp_all

lemma checkObjectiveCompletion_counters:
  "currentMessages (checkObjectiveCompletion p) = currentMessages p"
  "currentSuccessMessages (checkObjectiveCompletion p) = currentSuccessMessages p"
  by (simp_all add: checkObjectiveCompletion_def split_def Let_def)

lemma progress_buildObjectives:
  "map progress_v (buildObjectives q doc) =
     map (\<lambda>objective.
            min (if 0 < messageCount objective then currentMessages doc else currentSuccessMessages doc)
                (if 0 < messageCount objective then messageCount objective
                 else successMessageCount objective))
         (sort_key order (objectives q))"
  by (simp add: buildObjectives_def Let_def)

lemma buildPeriod_counts:
  "msgCount (buildPeriod q doc) = sum_list (map progress_v (buildObjectives q doc))"
  "successMsgCount (buildPeriod q doc) = sum_list (map progress_v (buildObjectives q doc))"
  "objectives_v (buildPeriod q doc) = buildObjectives q doc"
  by (simp_all add: buildPeriod_def Let_def foldl_plus_sum_list)

lemma getUserProgress_configured:
  assumes "first dailyQuests = Some dq" and "first weeklyQuests = Some wq"
  shows "getUserProgress True dailyQuests weeklyQuests cid uid dk wk s =
     \<lparr>daily = buildPeriod dq (checkObjectiveCompletion
                (case find (isDaily cid uid dk) (DailyQuestProgress s) of
                   Some d \<Rightarrow> d | None \<Rightarrow> newDaily cid uid dk (Some dq))),
      weekly = buildPeriod wq (checkObjectiveCompletion
                (case find (isWeekly cid uid wk) (WeeklyQuestProgress s) of
                   Some d \<Rightarrow> d | None \<Rightarrow> newWeekly cid uid wk (Some wq)))\<rparr>"
  using assms
  by (simp add: getUserProgress_def Let_def checkObjectiveCompletionDaily_def
      checkObjectiveCompletionWeekly_def)

text \<open>
  C10. When a daily and a weekly quest are configured, both \<open>msgCount\<close> and \<open>successMsgCount\<close>
  of a period of the read-model are the sum of the \<open>progress\<close> values of its objectives, each
  the counter of the objective's metric capped at its target; so the two fields are equal,
  and neither is the stored \<open>currentMessages\<close> or \<open>currentSuccessMessages\<close> of the document
  when the sum differs from it.
\<close>

theorem getUserProgress_counts:
  assumes dq: "first dailyQuests = Some dq" and wq: "first weeklyQuests = Some wq"
    and r: "r = getUserProgress True dailyQuests weeklyQuests cid uid dk wk s"
    and dd: "dailyDoc = (case find (isDaily cid uid dk) (DailyQuestProgress s) of
                           Some d \<Rightarrow> d | None \<Rightarrow> newDaily cid uid dk (Some dq))"
    and wd: "weeklyDoc = (case find (isWeekly cid uid wk) (WeeklyQuestProgress s) of
                            Some d \<Rightarrow> d | None \<Rightarrow> newWeekly cid uid wk (Some wq))"
  shows
    "msgCount (daily r) = successMsgCount (daily r)
     \<and> msgCount (weekly r) = successMsgCount (weekly r)
     \<and> msgCount (daily r) = sum_list (map progress_v (objectives_v (daily r)))
     \<and> msgCount (weekly r) = sum_list (map progress_v (objectives_v (weekly r)))
     \<and> map progress_v (objectives_v (daily r)) =
         map (\<lambda>objective.
                min (if 0 < messageCount objective then currentMessages dailyDoc
                     else currentSuccessMessages dailyDoc)
                    (if 0 < messageCount objective then messageCount objective
                     else successMessageCount objective))
             (sort_key order (objectives dq))
     \<and> map progress_v (objectives_v (weekly r)) =
         map (\<lambda>objective.
                min (if 0 < messageCount objective then currentMessages weeklyDoc
                     else currentSuccessMessages weeklyDoc)
                    (if 0 < messageCount objective then messageCount objective
                     else successMessageCount objective))
             (sort_key order (objectives wq))
     \<and> (sum_list (map progress_v (objectives_v (daily r))) \<noteq> currentMessages dailyDoc
          \<longrightarrow> msgCount (daily r) \<noteq> currentMessages dailyDoc)
     \<and> (sum_list (map progress_v (objectives_v (daily r))) \<noteq> currentSuccessMessages dailyDoc
          \<longrightarrow> successMsgCount (daily r) \<noteq> currentSuccessMessages dailyDoc)
     \<and> (sum_list (map progress_v (objectives_v (weekly r))) \<noteq> currentMessages weeklyDoc
          \<longrightarrow> msgCount (weekly r) \<noteq> currentMessages weeklyDoc)
     \<and> (sum_list (map progress_v (objectives_v (weekly r))) \<noteq> currentSuccessMessages weeklyDoc
          \<longrightarrow> successMsgCount (weekly r) \<noteq> currentSuccessMessages weeklyDoc)"
proof -
  from r dd wd have d: "daily r = buildPeriod dq (checkObjectiveCompletion dailyDoc)"
    and w: "weekly r = buildPeriod wq (checkObjectiveCompletion weeklyDoc)"
    by (simp_all add: getUserProgress_configured [OF dq wq])
  show ?thesis
    unfolding d w
    by (simp add: buildPeriod_counts progress_buildObjectives checkObjectiveCompletion_counters)
qed


theorem getUserProgress_counts_witness:
  "msgCount (daily (getUserProgress True [defaultDailyQuest] [defaultWeeklyQuest] ''acme'' ''u1''
                      ''2024-12-31'' ''2025-W01'' counted_store)) = 11
   \<and> successMsgCount (daily (getUserProgress True [defaultDailyQuest] [defaultWeeklyQuest] ''acme'' ''u1''
                      ''2024-12-31'' ''2025-W01'' counted_store)) = 11
   \<and> currentMessages (hd (DailyQuestProgress counted_store)) = 12
   \<and> currentSuccessMessages (hd (DailyQuestProgress counted_store)) = 3"
proof -
  let ?r = "getUserProgress True [defaultDailyQuest] [defaultWeeklyQuest] ''acme'' ''u1''
                      ''2024-12-31'' ''2025-W01'' counted_store"
  have h1: "first [defaultDailyQuest] = Some defaultDailyQuest"
    and h2: "first [defaultWeeklyQuest] = Some defaultWeeklyQuest"
    by (simp_all add: first_def)
  note T = getUserProgress_counts [OF h1 h2 refl refl refl, where cid = "''acme''" and uid = "''u1''"
      and dk = "''2024-12-31''" and wk = "''2025-W01''" and s = counted_store]
  from T have eq: "msgCount (daily ?r) = successMsgCount (daily ?r)"
    by (rule conjunct1)
  have v: "msgCount (daily ?r) = 11"
    by code_simp
  have c: "currentMessages (hd (DailyQuestProgress counted_store)) = 12
   \<and> currentSuccessMessages (hd (DailyQuestProgress counted_store)) = 3"
    by code_simp
  from eq v c show ?thesis by simp
qed

section \<open>Failures of the database connection\<close>

lemma getUserProgress_unconfigured:
  "first dailyQuests = None \<or> first weeklyQuests = None \<Longrightarrow>
     getUserProgress True dailyQuests weeklyQuests cid uid dk wk s = emptyProgress"
  by (auto simp: getUserProgress_def Let_def split: option.splits)

text \<open>
  C8, as the code has it. When the database connection fails, every public operation
  catches the failure and returns a fixed default, leaving the store as it is:
  \<^verbatim>\<open>updateProgress\<close> the empty object, \<^verbatim>\<open>claimObjective\<close> the failure \<open>Internal server error\<close>,
  \<^verbatim>\<open>markQuestSeen\<close> false, \<^verbatim>\<open>migrateQuestProgress\<close> nothing, and \<^verbatim>\<open>getUserProgress\<close> the empty
  read-model, which is also what it returns when no daily or no weekly quest is configured.
\<close>

theorem failures_swallowed:
  "updateProgress False dailyQuests weeklyQuests cid uid dk wk b s =
     (\<lparr>dailyProgress = None, weeklyProgress = None, completedObjectives = None\<rparr>, s)
   \<and> claimObjective False allQuests cid uid dk wk oid s =
     (\<lparr>success = False, error = Some ''Internal server error'', xp = 0\<rparr>, s)
   \<and> markQuestSeen False cid uid dk wk qt s = (False, s)
   \<and> migrateQuestProgress False dailyQuests weeklyQuests cid s = s
   \<and> getUserProgress False dailyQuests weeklyQuests cid uid dk wk s = emptyProgress
   \<and> (first dailyQuests' = None \<or> first weeklyQuests' = None \<longrightarrow>
        getUserProgress True dailyQuests' weeklyQuests' cid' uid' dk' wk' s' =
        getUserProgress False dailyQuests weeklyQuests cid uid dk wk s)"
  using getUserProgress_unconfigured [of dailyQuests' weeklyQuests' cid' uid' dk' wk' s']
  by (simp add: updateProgress_def claimObjective_def markQuestSeen_def migrateQuestProgress_def
      getUserProgress_def failure_def)

theorem failures_swallowed_witness:
  "first ([] :: quest list) = None
   \<and> getUserProgress True [] [defaultWeeklyQuest] ''acme'' ''u1'' ''2024-12-31'' ''2025-W01'' emptyStore =
     getUserProgress False [defaultDailyQuest] [defaultWeeklyQuest] ''acme'' ''u1'' ''2024-12-31''
        ''2025-W01'' earned_store"
proof -
  have h: "first ([] :: quest list) = None" by (simp add: first_def)
  from failures_swallowed [of "[defaultDailyQuest]" "[defaultWeeklyQuest]" "''acme''" "''u1''"
      "''2024-12-31''" "''2025-W01''" _ earned_store _ _ _ "[]" "[defaultWeeklyQuest]"
      "''acme''" "''u1''" "''2024-12-31''" "''2025-W01''" emptyStore] h
  show ?thesis by simp
qed

text \<open>
  The user has earned progress today and the database is down: \<^verbatim>\<open>getUserProgress\<close> returns
  what it returns for a company with no quest configured and no document at all.
\<close>

theorem failure_looks_like_no_progress:
  "getUserProgress False [defaultDailyQuest] [defaultWeeklyQuest] ''acme'' ''u1'' ''2024-12-31''
      ''2025-W01'' earned_store
     = getUserProgress True [] [] ''acme'' ''u1'' ''2024-12-31'' ''2025-W01'' emptyStore
   \<and> getUserProgress False [defaultDailyQuest] [defaultWeeklyQuest] ''acme'' ''u1'' ''2024-12-31''
      ''2025-W01'' earned_store
     = \<lparr>daily = \<lparr>msgCount = 0, successMsgCount = 0, objectives_v = [], questSeen = False,
                  notificationCount = 0\<rparr>,
        weekly = \<lparr>msgCount = 0, successMsgCount = 0, objectives_v = [], questSeen = False,
                   notificationCount = 0\<rparr>\<rparr>
   \<and> fst (updateProgress False [defaultDailyQuest] [defaultWeeklyQuest] ''acme'' ''u1'' ''2024-12-31''
            ''2025-W01'' True earned_store)
     = \<lparr>dailyProgress = None, weeklyProgress = None, completedObjectives = None\<rparr>
   \<and> fst (claimObjective False [defaultDailyQuest, defaultWeeklyQuest] ''acme'' ''u1'' ''2024-12-31''
            ''2025-W01'' ''daily_success1'' earned_store)
     = \<lparr>success = False, error = Some ''Internal server error'', xp = 0\<rparr>"
  by code_simp

end
